theory Spec2Isabelle
  imports Complex_Main
begin

section \<open>Candidate configurations and the objective\<close>

text \<open>
  A candidate is the list of six values that \<^verbatim>\<open>validate_config\<close> and
  \<^verbatim>\<open>evaluate_with_objective\<close> unpack, in the order of \<^verbatim>\<open>PARAM_SPACE\<close>:
  four \<^verbatim>\<open>Real\<close> dimensions and two \<^verbatim>\<open>Integer\<close> dimensions. Python floats are
  modelled as real numbers, without rounding, infinities or NaN; where the exact
  value of a float result matters, the objective is evaluated again on a model of
  binary64 arithmetic, in the section on IEEE doubles.
\<close>

record candidate =
  initial_weight :: real
  phase1_end :: int
  phase2_end :: int
  phase1_target :: real
  phase2_target :: real
  max_weight :: real

definition CORRELATION_WEIGHT :: real where
  "CORRELATION_WEIGHT = 0.6"

definition RMSE_WEIGHT :: real where
  "RMSE_WEIGHT = 0.3"

definition RMSE_PENALTY_THRESHOLD :: real where
  "RMSE_PENALTY_THRESHOLD = 0.75"

definition EARLY_STOP_PATIENCE :: nat where
  "EARLY_STOP_PATIENCE = 25"

text \<open>The three local values of \<^verbatim>\<open>calculate_objective\<close>, under their own names.\<close>

definition correlation_score :: "real \<Rightarrow> real" where
  "correlation_score correlation = correlation * CORRELATION_WEIGHT"

definition rmse_score :: "real \<Rightarrow> real" where
  "rmse_score rmse = (0.80 - rmse) * RMSE_WEIGHT"

definition rmse_penalty :: "real \<Rightarrow> real" where
  "rmse_penalty rmse = max 0 ((rmse - RMSE_PENALTY_THRESHOLD) * 2.0)"

definition calculate_objective :: "real \<Rightarrow> real \<Rightarrow> real" where
  "calculate_objective correlation rmse =
     correlation_score correlation + rmse_score rmse - rmse_penalty rmse"

definition validate_config :: "candidate \<Rightarrow> bool" where
  "validate_config params =
     (if phase2_end params \<le> phase1_end params + 3 then False
      else if \<not> (initial_weight params < phase1_target params
                 \<and> phase1_target params < phase2_target params
                 \<and> phase2_target params < max_weight params) then False
      else True)"

section \<open>Python values, exceptions and the evaluation bridge\<close>

text \<open>
  The exceptions that can reach the handlers of \<^verbatim>\<open>evaluate_config\<close> or escape from
  the optimisation script. \<open>Raised\<close> stands for any other subclass of \<^verbatim>\<open>Exception\<close>
  raised by the operating system or a library (\<^verbatim>\<open>OSError\<close>, \<^verbatim>\<open>JSONDecodeError\<close>, ...)
  together with its message. Exceptions outside \<^verbatim>\<open>Exception\<close> (\<^verbatim>\<open>KeyboardInterrupt\<close>)
  are not modelled.
\<close>

datatype py_exception =
    TimeoutExpired
  | KeyError string
  | TypeError
  | ValueError
  | Raised string

text \<open>
  The values \<^verbatim>\<open>json.load\<close> produces, which are also the values of the result
  dictionary. \<open>PyStrOf e\<close> is the string \<^verbatim>\<open>str(e)\<close>, whose text is not modelled.
\<close>

datatype pyval =
    PyNone
  | PyBool bool
  | PyInt int
  | PyFloat real
  | PyStr string
  | PyList "pyval list"
  | PyDict "(string \<times> pyval) list"
  | PyStrOf py_exception

type_synonym pydict = "string \<rightharpoonup> pyval"

text \<open>\<^verbatim>\<open>v[k]\<close> with a string key: only a dictionary can be indexed that way.\<close>

fun subscript :: "pyval \<Rightarrow> string \<Rightarrow> py_exception + pyval" where
  "subscript (PyDict kvs) k = (case map_of kvs k of None \<Rightarrow> Inl (KeyError k) | Some v \<Rightarrow> Inr v)"
| "subscript v k = Inl TypeError"

text \<open>A value used as an operand of float arithmetic (\<^verbatim>\<open>x * 0.6\<close>, \<^verbatim>\<open>0.80 - x\<close>).\<close>

fun float_operand :: "pyval \<Rightarrow> py_exception + real" where
  "float_operand (PyFloat x) = Inr x"
| "float_operand (PyInt n) = Inr (of_int n)"
| "float_operand (PyBool b) = Inr (if b then 1 else 0)"
| "float_operand v = Inl TypeError"

text \<open>
  What one call of \<^verbatim>\<open>evaluate_config\<close> meets outside the program: the outcome of
  \<^verbatim>\<open>subprocess.run\<close> and the result files found afterwards. For each file,
  \<open>st_mtime\<close> is the outcome of \<^verbatim>\<open>p.stat().st_mtime\<close> and \<open>json_load\<close> that of
  opening and parsing it.
\<close>

record completed_process =
  returncode :: int
  stderr :: string

record result_file =
  st_mtime :: "py_exception + real"
  json_load :: "py_exception + pyval"

record simulation =
  subprocess_run :: "py_exception + completed_process"
  glob :: "py_exception + result_file list"

text \<open>The dictionary returned on each of the four failure paths, up to its \<^verbatim>\<open>'error'\<close> entry.\<close>

definition failure :: "pyval \<Rightarrow> pydict" where
  "failure err =
     [''correlation'' \<mapsto> PyFloat 0.0, ''rmse'' \<mapsto> PyFloat 999.0, ''mae'' \<mapsto> PyFloat 999.0,
      ''regret'' \<mapsto> PyFloat 999.0, ''error'' \<mapsto> err]"

text \<open>
  \<^verbatim>\<open>max(json_files, key=lambda p: p.stat().st_mtime)\<close>: the keys are computed from left
  to right, the first exception propagates, and a later file replaces the current
  maximum only when its key is strictly greater.
\<close>

fun max_scan :: "result_file \<Rightarrow> real \<Rightarrow> result_file list \<Rightarrow> py_exception + result_file" where
  "max_scan best k [] = Inr best"
| "max_scan best k (p # ps) =
     (case st_mtime p of
        Inl e \<Rightarrow> Inl e
      | Inr k' \<Rightarrow> if k' > k then max_scan p k' ps else max_scan best k ps)"

definition max_by_mtime :: "result_file list \<Rightarrow> py_exception + result_file" where
  "max_by_mtime json_files =
     (case json_files of
        [] \<Rightarrow> Inl ValueError
      | p # ps \<Rightarrow> (case st_mtime p of Inl e \<Rightarrow> Inl e | Inr k \<Rightarrow> max_scan p k ps))"

text \<open>Sequencing of steps that may raise.\<close>

definition and_then :: "py_exception + 'a \<Rightarrow> ('a \<Rightarrow> py_exception + 'b) \<Rightarrow> py_exception + 'b" where
  "and_then r f = (case r of Inl e \<Rightarrow> Inl e | Inr v \<Rightarrow> f v)"

text \<open>The body of the \<^verbatim>\<open>try\<close> block of \<^verbatim>\<open>evaluate_config\<close>.\<close>

definition evaluate_config_try :: "simulation \<Rightarrow> py_exception + pydict" where
  "evaluate_config_try world =
     and_then (subprocess_run world) (\<lambda>result.
       if returncode result \<noteq> 0 then Inr (failure (PyStr (stderr result)))
       else and_then (glob world) (\<lambda>json_files.
         if json_files = [] then Inr (failure (PyStr ''No results file''))
         else and_then (max_by_mtime json_files) (\<lambda>latest_file.
           and_then (json_load latest_file) (\<lambda>data.
           and_then (subscript data ''modes'') (\<lambda>modes.
           and_then (subscript modes ''hybrid'') (\<lambda>hybrid_metrics.
           and_then (subscript hybrid_metrics ''correlation'') (\<lambda>correlation.
           and_then (subscript hybrid_metrics ''rmse'') (\<lambda>rmse.
           and_then (subscript hybrid_metrics ''mae'') (\<lambda>mae.
           and_then (subscript hybrid_metrics ''performance'') (\<lambda>performance.
           and_then (subscript performance ''avgRegret'') (\<lambda>regret.
             Inr [''correlation'' \<mapsto> correlation, ''rmse'' \<mapsto> rmse, ''mae'' \<mapsto> mae,
                  ''regret'' \<mapsto> regret])))))))))))"

text \<open>
  \<^verbatim>\<open>evaluate_config\<close>: the six arguments reach the simulation through environment
  variables, so the external world is a function \<open>sim\<close> of the configuration.
\<close>

definition evaluate_config :: "(candidate \<Rightarrow> simulation) \<Rightarrow> candidate \<Rightarrow> pydict" where
  "evaluate_config sim config =
     (case evaluate_config_try (sim config) of
        Inr results \<Rightarrow> results
      | Inl TimeoutExpired \<Rightarrow> failure (PyStr ''Timeout'')
      | Inl e \<Rightarrow> failure (PyStrOf e))"

text \<open>
  The same \<^verbatim>\<open>try\<close> statement with its outcome made explicit: \<open>Inr\<close> is a value
  that the function returns, \<open>Inl\<close> an exception that neither
  \<^verbatim>\<open>except subprocess.TimeoutExpired\<close> nor \<^verbatim>\<open>except Exception\<close> catches.
\<close>

definition evaluate_config_handled :: "simulation \<Rightarrow> py_exception + pydict" where
  "evaluate_config_handled world =
     (case evaluate_config_try world of
        Inr results \<Rightarrow> Inr results
      | Inl TimeoutExpired \<Rightarrow> Inr (failure (PyStr ''Timeout''))
      | Inl e \<Rightarrow> Inr (failure (PyStrOf e)))"

section \<open>The optimisation script\<close>

text \<open>
  What the script prints on standard output, one constructor per \<^verbatim>\<open>print\<close> whose
  presence depends on the control flow. The banners, the blank lines and the lines
  that report wall-clock time are left out.
\<close>

datatype message =
    IterationHeader nat int
  | InvalidConfig
  | EvaluatingConfig candidate
  | EvaluationFailed pyval
  | Results real real real
  | NewBest real
  | EarlyStopping nat
  | ResultsSaved
  | PlotSaved
  | PlotFailed py_exception
  | OptimizationComplete
  | BestConfiguration candidate real
  | NoValidConfiguration

text \<open>
  \<^verbatim>\<open>evaluate_with_objective\<close> returns the score for minimisation, here together with
  the lines it prints. \<^verbatim>\<open>int(phase1_end)\<close> and \<^verbatim>\<open>int(phase2_end)\<close> are the
  identity on the integers of a candidate.
\<close>

definition evaluate_with_objective ::
    "(candidate \<Rightarrow> simulation) \<Rightarrow> candidate \<Rightarrow> py_exception + (message list \<times> real)" where
  "evaluate_with_objective sim params =
     (if \<not> validate_config params then Inr ([InvalidConfig], 999.0)
      else
        let results = evaluate_config sim params in
        case results ''error'' of
          Some err \<Rightarrow> Inr ([EvaluatingConfig params, EvaluationFailed err], 999.0)
        | None \<Rightarrow>
            and_then (case results ''correlation'' of
                        None \<Rightarrow> Inl (KeyError ''correlation'') | Some v \<Rightarrow> Inr v) (\<lambda>correlation.
            and_then (case results ''rmse'' of
                        None \<Rightarrow> Inl (KeyError ''rmse'') | Some v \<Rightarrow> Inr v) (\<lambda>rmse.
            and_then (float_operand correlation) (\<lambda>c.
            and_then (float_operand rmse) (\<lambda>r.
              let objective = calculate_objective c r in
              Inr ([EvaluatingConfig params, Results c r objective], - objective))))))"

text \<open>
  The surrogate optimiser of \<^verbatim>\<open>skopt\<close>, the simulation and the file system are outside
  the program. The environment of a run gives the optimiser as a state type \<open>'o\<close>
  with its constructor and its \<^verbatim>\<open>ask\<close> and \<^verbatim>\<open>tell\<close> (none of which is taken to
  raise), the simulation met by the evaluation of iteration \<open>i\<close> (counted from 0),
  and what the file system does at the checkpoint of iteration \<open>i\<close> and at the final
  save of \<^verbatim>\<open>main\<close>: \<open>json_write\<close> is the exception raised while creating the
  directory, opening or writing the results file, if any, and \<open>plot\<close> the exception
  raised while the convergence plot is drawn and saved, if any.
\<close>

record filesystem =
  json_write :: "py_exception option"
  plot :: "py_exception option"

record 'o environment =
  Optimizer :: "int \<Rightarrow> 'o"
  ask :: "'o \<Rightarrow> candidate \<times> 'o"
  tell :: "'o \<Rightarrow> candidate \<Rightarrow> real \<Rightarrow> 'o"
  simulate :: "nat \<Rightarrow> candidate \<Rightarrow> simulation"
  checkpoint_fs :: "nat \<Rightarrow> filesystem"
  final_fs :: filesystem

text \<open>
  An entry of \<^verbatim>\<open>all_results\<close>. Its \<^verbatim>\<open>'params'\<close> are the six values of the
  candidate, the two phase ends passed through \<^verbatim>\<open>int\<close>.
\<close>

record trial =
  iteration :: nat
  params :: candidate
  objective :: real
  is_valid :: bool

text \<open>The JSON document written by \<^verbatim>\<open>save_results\<close>, without its timestamp.\<close>

record snapshot =
  json_best_config :: "candidate option"
  json_best_objective :: "real option"
  json_all_results :: "trial list"

text \<open>
  \<^verbatim>\<open>save_results\<close> returns the document it wrote and the lines it printed. The
  write is not guarded, so its exception propagates; the plot is inside
  \<^verbatim>\<open>try\<close>/\<^verbatim>\<open>except Exception\<close>. The optimiser argument is not used.
\<close>

definition save_results ::
    "filesystem \<Rightarrow> trial list \<Rightarrow> candidate option \<Rightarrow> trial option
       \<Rightarrow> py_exception + (snapshot \<times> message list)" where
  "save_results fs results bconfig bmetrics =
     (case json_write fs of
        Some e \<Rightarrow> Inl e
      | None \<Rightarrow>
          Inr (\<lparr>json_best_config = (case bconfig of Some c \<Rightarrow> Some c | None \<Rightarrow> None),
                json_best_objective = (case bmetrics of Some m \<Rightarrow> Some (objective m) | None \<Rightarrow> None),
                json_all_results = results\<rparr>,
               ResultsSaved # (case plot fs of None \<Rightarrow> [PlotSaved] | Some e \<Rightarrow> [PlotFailed e])))"

text \<open>
  The variables of \<^verbatim>\<open>run_optimization\<close>, with the output printed so far and the
  documents written so far to the results directory.
\<close>

record 'o state =
  optimizer :: 'o
  all_results :: "trial list"
  best_objective :: real
  best_config :: "candidate option"
  best_metrics :: "trial option"
  no_improvement_count :: nat
  stdout :: "message list"
  results_dir :: "snapshot list"

text \<open>
  The source has no value for the way the loop ends; the outcome says which exit
  of the \<^verbatim>\<open>for\<close> loop is taken: the \<^verbatim>\<open>break\<close> after the early-stopping line, or
  the end of \<^verbatim>\<open>range(n_iter)\<close>.
\<close>

datatype outcome = STOPPED_EARLY | STOPPED_BUDGET

text \<open>One pass through the loop body, from the iteration header to the update of the best.\<close>

definition trial_body :: "'o environment \<Rightarrow> int \<Rightarrow> nat \<Rightarrow> 'o state \<Rightarrow> py_exception + 'o state" where
  "trial_body E n_iter i s =
     (case ask E (optimizer s) of (suggested_params, asked) \<Rightarrow>
        and_then (evaluate_with_objective (simulate E i) suggested_params) (\<lambda>(out, neg_objective).
          let told = tell E asked suggested_params neg_objective;
              obj = - neg_objective;
              t = \<lparr>iteration = i + 1, params = suggested_params, objective = obj,
                   is_valid = validate_config suggested_params\<rparr>;
              s1 = s\<lparr>optimizer := told, all_results := all_results s @ [t],
                     stdout := stdout s @ IterationHeader (i + 1) n_iter # out\<rparr>
          in Inr (if obj > best_objective s
                  then s1\<lparr>best_objective := obj, best_config := Some suggested_params,
                          best_metrics := Some t, no_improvement_count := 0,
                          stdout := stdout s1 @ [NewBest obj]\<rparr>
                  else s1\<lparr>no_improvement_count := no_improvement_count s + 1\<rparr>)))"

text \<open>The checkpoint at the end of the loop body.\<close>

definition checkpoint :: "'o environment \<Rightarrow> nat \<Rightarrow> 'o state \<Rightarrow> py_exception + 'o state" where
  "checkpoint E i s =
     (if (i + 1) mod 10 = 0
      then and_then (save_results (checkpoint_fs E i) (all_results s) (best_config s) (best_metrics s))
             (\<lambda>(doc, out). Inr (s\<lparr>stdout := stdout s @ out, results_dir := results_dir s @ [doc]\<rparr>))
      else Inr s)"

text \<open>
  \<^verbatim>\<open>for i in range(n_iter)\<close> from index \<open>i\<close> on. The patience is the module constant
  \<^verbatim>\<open>EARLY_STOP_PATIENCE\<close>; it is a parameter here so that other configured values
  can be spoken about.
\<close>

function for_loop ::
    "'o environment \<Rightarrow> nat \<Rightarrow> int \<Rightarrow> nat \<Rightarrow> 'o state \<Rightarrow> py_exception + (outcome \<times> 'o state)" where
  "for_loop E patience n_iter i s =
     (if int i < n_iter
      then and_then (trial_body E n_iter i s) (\<lambda>s'.
             if no_improvement_count s' \<ge> patience
             then Inr (STOPPED_EARLY, s'\<lparr>stdout := stdout s' @ [EarlyStopping patience]\<rparr>)
             else and_then (checkpoint E i s') (for_loop E patience n_iter (i + 1)))
      else Inr (STOPPED_BUDGET, s))"
  by pat_completeness auto
termination
  by (relation "measure (\<lambda>(E, patience, n_iter, i, s). nat (n_iter - int i))") auto

definition initial_state :: "'o environment \<Rightarrow> int \<Rightarrow> 'o state" where
  "initial_state E n_initial =
     \<lparr>optimizer = Optimizer E n_initial, all_results = [], best_objective = - 999.0,
      best_config = None, best_metrics = None, no_improvement_count = 0,
      stdout = [], results_dir = []\<rparr>"

definition optimization ::
    "'o environment \<Rightarrow> nat \<Rightarrow> int \<Rightarrow> int \<Rightarrow> py_exception + (outcome \<times> 'o state)" where
  "optimization E patience n_iter n_initial =
     and_then (for_loop E patience n_iter 0 (initial_state E n_initial)) (\<lambda>(how, s).
       Inr (how, s\<lparr>stdout := stdout s @ [OptimizationComplete]\<rparr>))"

definition run_optimization ::
    "'o environment \<Rightarrow> int \<Rightarrow> int \<Rightarrow> py_exception + (outcome \<times> 'o state)" where
  "run_optimization E n_iter n_initial = optimization E EARLY_STOP_PATIENCE n_iter n_initial"

text \<open>
  \<^verbatim>\<open>main\<close> after argument parsing: the run, the final save and the summary. The
  result is the state at the end, with everything printed and written.
\<close>

definition main :: "'o environment \<Rightarrow> int \<Rightarrow> int \<Rightarrow> py_exception + 'o state" where
  "main E n_iter n_initial =
     and_then (run_optimization E n_iter n_initial) (\<lambda>(how, s).
     and_then (save_results (final_fs E) (all_results s) (best_config s) (best_metrics s)) (\<lambda>(doc, out).
       let s1 = s\<lparr>stdout := stdout s @ out, results_dir := results_dir s @ [doc]\<rparr> in
       case best_config s of
         Some c \<Rightarrow>
           (case best_metrics s of
              None \<Rightarrow> Inl TypeError
            | Some m \<Rightarrow> Inr (s1\<lparr>stdout := stdout s1 @ [BestConfiguration c (objective m)]\<rparr>))
       | None \<Rightarrow> Inr (s1\<lparr>stdout := stdout s1 @ [NoValidConfiguration]\<rparr>)))"

section \<open>Concrete environments\<close>

text \<open>
  Small environments on which the definitions can be run: a surrogate that proposes
  the candidates of a given sequence and keeps the list of everything it was told,
  simulations that succeed or fail in each of the ways \<^verbatim>\<open>evaluate_config\<close>
  distinguishes, and file systems that accept or refuse a write.
\<close>

definition feasible_candidate :: candidate where
  "feasible_candidate =
     \<lparr>initial_weight = 0.5, phase1_end = 10, phase2_end = 20,
      phase1_target = 0.65, phase2_target = 0.85, max_weight = 0.9\<rparr>"

definition infeasible_candidate :: candidate where
  "infeasible_candidate =
     \<lparr>initial_weight = 0.6, phase1_end = 15, phase2_end = 15,
      phase1_target = 0.55, phase2_target = 0.75, max_weight = 0.85\<rparr>"

definition metrics_json :: "pyval \<Rightarrow> pyval \<Rightarrow> pyval" where
  "metrics_json correlation rmse =
     PyDict [(''modes'', PyDict [(''hybrid'', PyDict
       [(''correlation'', correlation), (''rmse'', rmse), (''mae'', PyFloat 0.5),
        (''performance'', PyDict [(''avgRegret'', PyFloat 0.1)])])])]"

definition sim_metrics :: "pyval \<Rightarrow> pyval \<Rightarrow> simulation" where
  "sim_metrics correlation rmse =
     \<lparr>subprocess_run = Inr \<lparr>returncode = 0, stderr = []\<rparr>,
      glob = Inr [\<lparr>st_mtime = Inr 1, json_load = Inr (metrics_json correlation rmse)\<rparr>]\<rparr>"

definition sim_timeout :: simulation where
  "sim_timeout = \<lparr>subprocess_run = Inl TimeoutExpired, glob = Inr []\<rparr>"

definition sim_exit :: simulation where
  "sim_exit = \<lparr>subprocess_run = Inr \<lparr>returncode = 1, stderr = ''npx: not found''\<rparr>, glob = Inr []\<rparr>"

definition sim_no_file :: simulation where
  "sim_no_file = \<lparr>subprocess_run = Inr \<lparr>returncode = 0, stderr = []\<rparr>, glob = Inr []\<rparr>"

definition sim_bad_json :: simulation where
  "sim_bad_json =
     \<lparr>subprocess_run = Inr \<lparr>returncode = 0, stderr = []\<rparr>,
      glob = Inr [\<lparr>st_mtime = Inr 1, json_load = Inl (Raised ''Expecting value'')\<rparr>]\<rparr>"

definition fs_ok :: filesystem where
  "fs_ok = \<lparr>json_write = None, plot = None\<rparr>"

definition fs_full :: filesystem where
  "fs_full = \<lparr>json_write = Some (Raised ''No space left on device''), plot = None\<rparr>"

definition fs_no_plot :: filesystem where
  "fs_no_plot = \<lparr>json_write = None, plot = Some (Raised ''no display'')\<rparr>"

definition recording ::
    "(nat \<Rightarrow> candidate) \<Rightarrow> (nat \<Rightarrow> candidate \<Rightarrow> simulation) \<Rightarrow> (nat \<Rightarrow> filesystem)
       \<Rightarrow> (candidate \<times> real) list environment" where
  "recording proposals sims fss =
     \<lparr>Optimizer = (\<lambda>n_initial. []),
      ask = (\<lambda>told. (proposals (length told), told)),
      tell = (\<lambda>told x y. told @ [(x, y)]),
      simulate = sims,
      checkpoint_fs = fss,
      final_fs = fs_ok\<rparr>"

text \<open>Every proposal is infeasible.\<close>

definition env_infeasible :: "(candidate \<times> real) list environment" where
  "env_infeasible = recording (\<lambda>k. infeasible_candidate) (\<lambda>i c. sim_no_file) (\<lambda>i. fs_ok)"



definition sim_good :: simulation where
  "sim_good = sim_metrics (PyFloat 0.8) (PyFloat 0.7)"

text \<open>Every evaluation succeeds with correlation 0.8 and rmse 0.7.\<close>

definition env_scored :: "(candidate \<times> real) list environment" where
  "env_scored =
     recording (\<lambda>k. feasible_candidate) (\<lambda>i c. sim_good) (\<lambda>i. fs_ok)"

text \<open>Only the fifth proposal is feasible; its evaluation succeeds.\<close>

definition env_fifth :: "(candidate \<times> real) list environment" where
  "env_fifth =
     recording (\<lambda>k. if k = 4 then feasible_candidate else infeasible_candidate)
       (\<lambda>i c. sim_good) (\<lambda>i. fs_ok)"

text \<open>As \<open>env_scored\<close>, with a disk that is full at the checkpoint of iteration 10.\<close>

definition env_disk_full :: "(candidate \<times> real) list environment" where
  "env_disk_full =
     recording (\<lambda>k. feasible_candidate) (\<lambda>i c. sim_good)
       (\<lambda>i. if i = 9 then fs_full else fs_ok)"

text \<open>As \<open>env_scored\<close>, but no checkpoint can draw its plot.\<close>

definition env_no_plot :: "(candidate \<times> real) list environment" where
  "env_no_plot =
     recording (\<lambda>k. feasible_candidate) (\<lambda>i c. sim_good)
       (\<lambda>i. fs_no_plot)"

section \<open>The running best, as the specification words it\<close>

text \<open>
  The best-so-far of a trial history, following the words of the specification and
  not the loop: start from -999.0 with no candidate and a counter of 0; a trial
  whose objective is strictly greater than the running best becomes the best and
  resets the counter, any other trial increments the counter.
\<close>

record running =
  run_objective :: real
  run_config :: "candidate option"
  run_metrics :: "trial option"
  run_count :: nat

definition track :: "running \<Rightarrow> trial \<Rightarrow> running" where
  "track b t =
     (if objective t > run_objective b
      then \<lparr>run_objective = objective t, run_config = Some (params t), run_metrics = Some t,
            run_count = 0\<rparr>
      else b\<lparr>run_count := run_count b + 1\<rparr>)"

definition tracked :: "trial list \<Rightarrow> running" where
  "tracked ts =
     foldl track \<lparr>run_objective = - 999.0, run_config = None, run_metrics = None, run_count = 0\<rparr> ts"

text \<open>The best-so-far that a state holds in memory.\<close>

definition in_memory :: "'o state \<Rightarrow> running" where
  "in_memory s =
     \<lparr>run_objective = best_objective s, run_config = best_config s,
      run_metrics = best_metrics s, run_count = no_improvement_count s\<rparr>"

text \<open>The document that a checkpoint right after the trials \<open>ts\<close> has to hold.\<close>

definition snapshot_after :: "trial list \<Rightarrow> snapshot" where
  "snapshot_after ts =
     \<lparr>json_best_config = run_config (tracked ts),
      json_best_objective = map_option objective (run_metrics (tracked ts)),
      json_all_results = ts\<rparr>"

text \<open>The greatest of -999.0 and the objectives of the trials, and the first trial that has it.\<close>

definition greatest :: "trial list \<Rightarrow> real" where
  "greatest ts = Max (insert (- 999.0) (objective ` set ts))"

definition first_attaining :: "trial list \<Rightarrow> trial option" where
  "first_attaining ts = find (\<lambda>t. objective t = greatest ts) ts"

text \<open>The candidate of the first trial that has the greatest objective.\<close>

definition attaining_config :: "'o state \<Rightarrow> candidate option" where
  "attaining_config s = map_option params (first_attaining (all_results s))"

text \<open>
  The best-so-far is the greatest objective, with the candidate of the first trial
  that reached it once some trial has exceeded -999.0, and no candidate before.
\<close>

definition best_is_greatest :: "'o state \<Rightarrow> bool" where
  "best_is_greatest s \<longleftrightarrow>
     best_objective s = greatest (all_results s)
     \<and> best_config s = (if - 999.0 < greatest (all_results s) then attaining_config s else None)"

text \<open>
  A run in which every trial is penalised: the state of the surrogate after \<open>k\<close>
  such trials, each told 999.0, the candidate it then proposes, and the condition
  that this candidate is infeasible or that its evaluation fails.
\<close>

fun penalised_optimizer :: "'o environment \<Rightarrow> int \<Rightarrow> nat \<Rightarrow> 'o" where
  "penalised_optimizer E n_initial 0 = Optimizer E n_initial"
| "penalised_optimizer E n_initial (Suc k) =
     (case ask E (penalised_optimizer E n_initial k) of (c, asked) \<Rightarrow> tell E asked c 999.0)"

definition proposal :: "'o environment \<Rightarrow> int \<Rightarrow> nat \<Rightarrow> candidate" where
  "proposal E n_initial k = fst (ask E (penalised_optimizer E n_initial k))"

definition penalised :: "'o environment \<Rightarrow> int \<Rightarrow> nat \<Rightarrow> bool" where
  "penalised E n_initial k \<longleftrightarrow>
     \<not> validate_config (proposal E n_initial k)
     \<or> evaluate_config (simulate E k) (proposal E n_initial k) ''error'' \<noteq> None"

text \<open>What is observed of a finished run: how it ended, after how many trials, and the
  number of trials in each document written.\<close>

definition ended :: "py_exception + (outcome \<times> 'o state) \<Rightarrow> py_exception + outcome" where
  "ended r = map_sum id fst r"

definition trials_done :: "py_exception + (outcome \<times> 'o state) \<Rightarrow> py_exception + nat" where
  "trials_done r = map_sum id (\<lambda>(how, s). length (all_results s)) r"

definition documents :: "py_exception + (outcome \<times> 'o state) \<Rightarrow> py_exception + nat list" where
  "documents r = map_sum id (\<lambda>(how, s). map (\<lambda>d. length (json_all_results d)) (results_dir s)) r"

definition final_best_config :: "py_exception + (outcome \<times> 'o state) \<Rightarrow> py_exception + candidate option" where
  "final_best_config r = map_sum id (\<lambda>(how, s). best_config s) r"

section \<open>The objective on IEEE doubles\<close>

text \<open>
  A Python float is an IEEE 754 binary64 number. A finite one is \<open>m * 2 ^ e\<close> with
  an integer \<open>m\<close> of at most 53 bits; it is kept here as the pair \<open>(m, e)\<close>, not
  normalised, and read by \<open>double_value\<close>. Each arithmetic operation returns the
  exact result rounded to 53 bits, to nearest and ties to even, and a decimal
  literal is the double nearest to it in the same way. Overflow, subnormal
  numbers, infinities, NaN and the sign of zero are outside this model: the
  exponent is unbounded.
\<close>

type_synonym double = "int \<times> int"


text \<open>The number of binary digits of a positive integer.\<close>

function bits :: "int \<Rightarrow> nat" where
  "bits a = (if a \<le> 0 then 0 else Suc (bits (a div 2)))"
  by pat_completeness auto
termination
  by (relation "measure nat") auto

declare bits.simps [simp del]

text \<open>
  \<open>m * 2 ^ e\<close> rounded to 53 bits: the digits below the 53rd are dropped, and the
  result is moved up by one unit when they are more than half a unit, or exactly
  half a unit with an odd last digit kept.
\<close>

definition round53 :: "int \<Rightarrow> int \<Rightarrow> double" where
  "round53 m e =
     (let a = \<bar>m\<bar>; b = bits a in
      if b \<le> 53 then (m, e)
      else
        let s = b - 53;
            q = a div 2 ^ s;
            r = a mod 2 ^ s;
            h = 2 ^ (s - 1);
            q' = (if r > h \<or> (r = h \<and> odd q) then q + 1 else q)
        in (sgn m * q', e + int s))"







section \<open>Properties of the objective and of the feasibility predicate\<close>

lemma objective_unfold:
  "calculate_objective c r = c * 0.6 + (0.80 - r) * 0.3 - max 0 ((r - 0.75) * 2.0)"
  by (simp add: calculate_objective_def correlation_score_def rmse_score_def rmse_penalty_def
      CORRELATION_WEIGHT_def RMSE_WEIGHT_def RMSE_PENALTY_THRESHOLD_def)

lemma objective_low: "r \<le> 3 / 4 \<Longrightarrow> calculate_objective c r = (3 / 5) * c + 6 / 25 - (3 / 10) * r"
  unfolding objective_unfold by (simp add: max_def algebra_simps)

lemma objective_high: "3 / 4 < r \<Longrightarrow> calculate_objective c r = (3 / 5) * c + 87 / 50 - (23 / 10) * r"
  unfolding objective_unfold by (simp add: max_def algebra_simps)

lemma objective_lower: "0 \<le> c \<Longrightarrow> r \<le> 435 \<Longrightarrow> - 999 < calculate_objective c r"
  by (cases "r \<le> 3 / 4") (simp_all add: objective_low objective_high)

lemma objective_upper: "c \<le> 1 \<Longrightarrow> 0 \<le> r \<Longrightarrow> calculate_objective c r \<le> 0.84"
  by (cases "r \<le> 3 / 4") (simp_all add: objective_low objective_high)

lemma objective_below_sentinel: "c \<le> 1 \<Longrightarrow> 436 \<le> r \<Longrightarrow> calculate_objective c r < - 999"
  by (simp add: objective_high)

text \<open>
  C4. \<^verbatim>\<open>validate_config\<close> holds exactly when both joint constraints hold; a candidate
  with \<open>phase2_end \<le> phase1_end + 3\<close> is infeasible whatever its other fields are,
  and so is a candidate that breaks the strict chain of weights.
\<close>

theorem validate_config_exact:
  "(validate_config c \<longleftrightarrow>
      phase2_end c > phase1_end c + 3
      \<and> initial_weight c < phase1_target c \<and> phase1_target c < phase2_target c
      \<and> phase2_target c < max_weight c)
   \<and> (phase2_end c \<le> phase1_end c + 3 \<longrightarrow> \<not> validate_config c)
   \<and> (\<not> (initial_weight c < phase1_target c \<and> phase1_target c < phase2_target c
          \<and> phase2_target c < max_weight c) \<longrightarrow> \<not> validate_config c)"
  by (auto simp: validate_config_def)

theorem validate_config_exact_witness:
  "validate_config \<lparr>initial_weight = 0.5, phase1_end = 10, phase2_end = 20,
                    phase1_target = 0.65, phase2_target = 0.85, max_weight = 0.9\<rparr>
   \<and> (15::int) \<le> 15 + 3 \<and> \<not> ((0.6::real) < 0.55 \<and> (0.55::real) < 0.75 \<and> (0.75::real) < 0.85)
   \<and> \<not> validate_config \<lparr>initial_weight = 0.6, phase1_end = 15, phase2_end = 15,
                    phase1_target = 0.55, phase2_target = 0.75, max_weight = 0.85\<rparr>"
  using validate_config_exact [of "\<lparr>initial_weight = 0.5, phase1_end = 10, phase2_end = 20,
                    phase1_target = 0.65, phase2_target = 0.85, max_weight = 0.9\<rparr>"]
    validate_config_exact [of "\<lparr>initial_weight = 0.6, phase1_end = 15, phase2_end = 15,
                    phase1_target = 0.55, phase2_target = 0.75, max_weight = 0.85\<rparr>"]
  by simp

text \<open>The rounding returns its argument when it fits, and otherwise a nearest neighbour.\<close>

lemma round53_exact: "bits \<bar>m\<bar> \<le> 53 \<Longrightarrow> round53 m e = (m, e)"
  by (simp add: round53_def Let_def)

lemma round53_nearest:
  "\<bar>fst (round53 m e) * 2 ^ nat (snd (round53 m e) - e) - m\<bar> * 2 \<le> 2 ^ nat (snd (round53 m e) - e)"
proof (cases "bits \<bar>m\<bar> \<le> 53")
  case True
  then show ?thesis by (simp add: round53_exact)
next
  case False
  define s where "s = bits \<bar>m\<bar> - 53"
  define a where "a = \<bar>m\<bar>"
  define q where "q = a div 2 ^ s"
  define r where "r = a mod 2 ^ s"
  define h :: int where "h = 2 ^ (s - 1)"
  define q' where "q' = (if r > h \<or> (r = h \<and> odd q) then q + 1 else q)"
  define d where "d = q' * 2 ^ s - a"
  from False have s: "0 < s" by (simp add: s_def)
  then have hh: "h * 2 = 2 ^ s" by (cases s) (simp_all add: h_def)
  have a: "a = q * 2 ^ s + r" unfolding q_def r_def by (rule div_mult_mod_eq [symmetric])
  have r: "0 \<le> r" "r < 2 ^ s" by (simp_all add: r_def)
  have d: "d = (if r > h \<or> (r = h \<and> odd q) then 2 ^ s - r else - r)"
    unfolding d_def q'_def a by (simp add: algebra_simps)
  have near: "\<bar>d\<bar> * 2 \<le> 2 ^ s"
  proof (cases "r > h \<or> (r = h \<and> odd q)")
    case True
    then have "h \<le> r" by auto
    with r hh True show ?thesis unfolding d by simp
  next
    case False
    then have "r \<le> h" by auto
    with r hh False show ?thesis unfolding d by simp
  qed
  have res: "round53 m e = (sgn m * q', e + int s)"
    using False by (simp add: round53_def Let_def s_def a_def q_def r_def h_def q'_def)
  have "sgn m * q' * 2 ^ s - m = sgn m * (q' * 2 ^ s) - sgn m * a"
    unfolding a_def mult_sgn_abs by (simp add: mult.assoc)
  also have "\<dots> = sgn m * d" by (simp add: d_def right_diff_distrib)
  finally have "\<bar>sgn m * q' * 2 ^ s - m\<bar> \<le> \<bar>d\<bar>"
    by (simp add: abs_mult abs_sgn_eq)
  with near show ?thesis by (simp add: res)
qed





text \<open>
  C8, as the code has it. For a correlation in \<open>[0, 1]\<close> and \<open>0 \<le> rmse \<le> 435\<close> the
  objective lies strictly between -999 and 999 (it is at most 0.84), so it exceeds
  the initial best of the loop; from \<open>rmse = 436\<close> on it is below -999.
\<close>

theorem objective_within_sentinel:
  assumes "0 \<le> correlation" "correlation \<le> 1" "0 \<le> rmse"
  shows "(rmse \<le> 435 \<longrightarrow>
            - 999 < calculate_objective correlation rmse
            \<and> calculate_objective correlation rmse < 999
            \<and> best_objective (initial_state E n_initial) < calculate_objective correlation rmse)
         \<and> calculate_objective correlation rmse \<le> 0.84
         \<and> (436 \<le> rmse \<longrightarrow> calculate_objective correlation rmse < - 999)"
  using objective_lower [of correlation rmse] objective_upper [of correlation rmse]
    objective_below_sentinel [of correlation rmse] assms
  by (simp add: initial_state_def)

theorem objective_within_sentinel_witness:
  "(0::real) \<le> 0.5 \<and> (0.5::real) \<le> 1 \<and> (0::real) \<le> 0.9 \<and> (0.9::real) \<le> 435
   \<and> - 999 < calculate_objective 0.5 0.9 \<and> calculate_objective 0.5 0.9 < 999
   \<and> best_objective (initial_state env_infeasible 25) < calculate_objective 0.5 0.9
   \<and> (0::real) \<le> 1 \<and> (436::real) \<le> 500 \<and> calculate_objective 1 500 < - 999"
  using objective_within_sentinel [of "0.5" "0.9" env_infeasible 25]
    objective_within_sentinel [of 1 500 env_infeasible 25]
  by simp

theorem objective_bound_counterexample:
  "(0::real) \<le> 0 \<and> (0::real) \<le> 1 \<and> (0::real) \<le> 500 \<and> \<not> (- 999 < calculate_objective 0 500)"
  by (simp add: calculate_objective_def correlation_score_def rmse_score_def rmse_penalty_def
      CORRELATION_WEIGHT_def RMSE_WEIGHT_def RMSE_PENALTY_THRESHOLD_def)

section \<open>The evaluation bridge never raises\<close>

lemma and_then_Inr [simp]: "and_then (Inr v) f = f v"
  by (simp add: and_then_def)
lemma and_then_Inl [simp]: "and_then (Inl e) f = Inl e"
  by (simp add: and_then_def)
lemma failure_entries:
  "failure err ''error'' = Some err"
  "failure err ''correlation'' = Some (PyFloat 0.0)"
  "failure err ''rmse'' = Some (PyFloat 999.0)"
  "failure err ''mae'' = Some (PyFloat 999.0)"
  "failure err ''regret'' = Some (PyFloat 999.0)"
  by (simp_all add: failure_def)

lemma evaluate_config_handlers:
  "evaluate_config sim config =
     (case evaluate_config_try (sim config) of
        Inr results \<Rightarrow> results
      | Inl e \<Rightarrow> failure (if e = TimeoutExpired then PyStr ''Timeout'' else PyStrOf e))"
  by (simp add: evaluate_config_def split: sum.splits py_exception.splits)

lemma try_cases:
  "(\<exists>e. evaluate_config_try w = Inl e)
   \<or> (\<exists>err. evaluate_config_try w = Inr (failure err))
   \<or> (\<exists>p fs f data ms hm c r m perf g.
        subprocess_run w = Inr p \<and> returncode p = 0 \<and> glob w = Inr fs \<and> fs \<noteq> []
        \<and> max_by_mtime fs = Inr f \<and> json_load f = Inr data \<and> subscript data ''modes'' = Inr ms
        \<and> subscript ms ''hybrid'' = Inr hm \<and> subscript hm ''correlation'' = Inr c
        \<and> subscript hm ''rmse'' = Inr r \<and> subscript hm ''mae'' = Inr m
        \<and> subscript hm ''performance'' = Inr perf \<and> subscript perf ''avgRegret'' = Inr g
        \<and> evaluate_config_try w =
             Inr [''correlation'' \<mapsto> c, ''rmse'' \<mapsto> r, ''mae'' \<mapsto> m, ''regret'' \<mapsto> g])"
  unfolding evaluate_config_try_def and_then_def
  by (auto split: sum.splits)


lemma try_success:
  assumes "subprocess_run w = Inr q" "returncode q = 0" "glob w = Inr fs" "fs \<noteq> []"
    "max_by_mtime fs = Inr f" "json_load f = Inr data" "subscript data ''modes'' = Inr ms"
    "subscript ms ''hybrid'' = Inr hm" "subscript hm ''correlation'' = Inr c"
    "subscript hm ''rmse'' = Inr r" "subscript hm ''mae'' = Inr m"
    "subscript hm ''performance'' = Inr perf" "subscript perf ''avgRegret'' = Inr g"
  shows "evaluate_config_try w =
           Inr [''correlation'' \<mapsto> c, ''rmse'' \<mapsto> r, ''mae'' \<mapsto> m, ''regret'' \<mapsto> g]"
  using assms by (simp add: evaluate_config_try_def)

text \<open>
  C10. \<^verbatim>\<open>evaluate_config\<close> always returns a dictionary: no exception of the
  \<^verbatim>\<open>try\<close> block passes its two handlers. When the process exits with status 0, a
  result file is found, the latest one is read and parsed, and every subscript
  succeeds, the dictionary holds exactly the parsed correlation, rmse, mae and
  nested avgRegret, with no \<^verbatim>\<open>'error'\<close> entry. In every other case it is a failure
  dictionary, with an \<^verbatim>\<open>'error'\<close> entry, correlation 0.0 and rmse, mae and regret
  999.0: a timeout, a nonzero exit status, a missing result file and any other
  exception raised in the block each give it, with their own \<^verbatim>\<open>'error'\<close> text.
\<close>

theorem evaluate_config_total:
  "evaluate_config_handled (sim config) = Inr (evaluate_config sim config)
   \<and> (subprocess_run (sim config) = Inr q \<and> returncode q = 0
        \<and> glob (sim config) = Inr fs \<and> fs \<noteq> []
        \<and> max_by_mtime fs = Inr f \<and> json_load f = Inr data
        \<and> subscript data ''modes'' = Inr ms \<and> subscript ms ''hybrid'' = Inr hm
        \<and> subscript hm ''correlation'' = Inr c \<and> subscript hm ''rmse'' = Inr r
        \<and> subscript hm ''mae'' = Inr m \<and> subscript hm ''performance'' = Inr perf
        \<and> subscript perf ''avgRegret'' = Inr g
        \<longrightarrow> evaluate_config sim config
               = [''correlation'' \<mapsto> c, ''rmse'' \<mapsto> r, ''mae'' \<mapsto> m, ''regret'' \<mapsto> g]
            \<and> evaluate_config sim config ''error'' = None
            \<and> dom (evaluate_config sim config) = {''correlation'', ''rmse'', ''mae'', ''regret''})
   \<and> (\<not> (\<exists>q fs f data ms hm c r m perf g.
            subprocess_run (sim config) = Inr q \<and> returncode q = 0
            \<and> glob (sim config) = Inr fs \<and> fs \<noteq> []
            \<and> max_by_mtime fs = Inr f \<and> json_load f = Inr data
            \<and> subscript data ''modes'' = Inr ms \<and> subscript ms ''hybrid'' = Inr hm
            \<and> subscript hm ''correlation'' = Inr c \<and> subscript hm ''rmse'' = Inr r
            \<and> subscript hm ''mae'' = Inr m \<and> subscript hm ''performance'' = Inr perf
            \<and> subscript perf ''avgRegret'' = Inr g)
        \<longrightarrow> (\<exists>err. evaluate_config sim config = failure err))
   \<and> (failure err ''error'' = Some err \<and> failure err ''correlation'' = Some (PyFloat 0.0)
       \<and> failure err ''rmse'' = Some (PyFloat 999.0) \<and> failure err ''mae'' = Some (PyFloat 999.0)
       \<and> failure err ''regret'' = Some (PyFloat 999.0))
   \<and> (subprocess_run (sim config) = Inl TimeoutExpired
        \<longrightarrow> evaluate_config sim config = failure (PyStr ''Timeout''))
   \<and> (subprocess_run (sim config) = Inr p \<and> returncode p \<noteq> 0
        \<longrightarrow> evaluate_config sim config = failure (PyStr (stderr p)))
   \<and> (subprocess_run (sim config) = Inr p \<and> returncode p = 0 \<and> glob (sim config) = Inr []
        \<longrightarrow> evaluate_config sim config = failure (PyStr ''No results file''))
   \<and> (evaluate_config_try (sim config) = Inl e \<and> e \<noteq> TimeoutExpired
        \<longrightarrow> evaluate_config sim config = failure (PyStrOf e))"
proof -
  have ret: "evaluate_config_handled (sim config) = Inr (evaluate_config sim config)"
    by (simp add: evaluate_config_handled_def evaluate_config_def
        split: sum.splits py_exception.splits)
  have succ: "subprocess_run (sim config) = Inr q \<and> returncode q = 0
        \<and> glob (sim config) = Inr fs \<and> fs \<noteq> []
        \<and> max_by_mtime fs = Inr f \<and> json_load f = Inr data
        \<and> subscript data ''modes'' = Inr ms \<and> subscript ms ''hybrid'' = Inr hm
        \<and> subscript hm ''correlation'' = Inr c \<and> subscript hm ''rmse'' = Inr r
        \<and> subscript hm ''mae'' = Inr m \<and> subscript hm ''performance'' = Inr perf
        \<and> subscript perf ''avgRegret'' = Inr g
        \<longrightarrow> evaluate_config sim config
               = [''correlation'' \<mapsto> c, ''rmse'' \<mapsto> r, ''mae'' \<mapsto> m, ''regret'' \<mapsto> g]
            \<and> evaluate_config sim config ''error'' = None
            \<and> dom (evaluate_config sim config) = {''correlation'', ''rmse'', ''mae'', ''regret''}"
  proof (intro impI, elim conjE)
    assume a: "subprocess_run (sim config) = Inr q" "returncode q = 0"
      "glob (sim config) = Inr fs" "fs \<noteq> []" "max_by_mtime fs = Inr f" "json_load f = Inr data"
      "subscript data ''modes'' = Inr ms" "subscript ms ''hybrid'' = Inr hm"
      "subscript hm ''correlation'' = Inr c" "subscript hm ''rmse'' = Inr r"
      "subscript hm ''mae'' = Inr m" "subscript hm ''performance'' = Inr perf"
      "subscript perf ''avgRegret'' = Inr g"
    have d: "evaluate_config sim config
               = [''correlation'' \<mapsto> c, ''rmse'' \<mapsto> r, ''mae'' \<mapsto> m, ''regret'' \<mapsto> g]"
      using try_success [OF a] by (simp add: evaluate_config_handlers)
    have "evaluate_config sim config ''error'' = None" unfolding d by simp
    moreover have "dom (evaluate_config sim config) = {''correlation'', ''rmse'', ''mae'', ''regret''}"
      unfolding d by auto
    ultimately show "evaluate_config sim config
               = [''correlation'' \<mapsto> c, ''rmse'' \<mapsto> r, ''mae'' \<mapsto> m, ''regret'' \<mapsto> g]
            \<and> evaluate_config sim config ''error'' = None
            \<and> dom (evaluate_config sim config) = {''correlation'', ''rmse'', ''mae'', ''regret''}"
      using d by blast
  qed
  have fail: "\<not> (\<exists>q fs f data ms hm c r m perf g.
            subprocess_run (sim config) = Inr q \<and> returncode q = 0
            \<and> glob (sim config) = Inr fs \<and> fs \<noteq> []
            \<and> max_by_mtime fs = Inr f \<and> json_load f = Inr data
            \<and> subscript data ''modes'' = Inr ms \<and> subscript ms ''hybrid'' = Inr hm
            \<and> subscript hm ''correlation'' = Inr c \<and> subscript hm ''rmse'' = Inr r
            \<and> subscript hm ''mae'' = Inr m \<and> subscript hm ''performance'' = Inr perf
            \<and> subscript perf ''avgRegret'' = Inr g)
        \<longrightarrow> (\<exists>err. evaluate_config sim config = failure err)"
  proof (intro impI)
    assume n: "\<not> (\<exists>q fs f data ms hm c r m perf g.
            subprocess_run (sim config) = Inr q \<and> returncode q = 0
            \<and> glob (sim config) = Inr fs \<and> fs \<noteq> []
            \<and> max_by_mtime fs = Inr f \<and> json_load f = Inr data
            \<and> subscript data ''modes'' = Inr ms \<and> subscript ms ''hybrid'' = Inr hm
            \<and> subscript hm ''correlation'' = Inr c \<and> subscript hm ''rmse'' = Inr r
            \<and> subscript hm ''mae'' = Inr m \<and> subscript hm ''performance'' = Inr perf
            \<and> subscript perf ''avgRegret'' = Inr g)"
    from try_cases [of "sim config"]
    consider (raised) e where "evaluate_config_try (sim config) = Inl e"
      | (failed) err where "evaluate_config_try (sim config) = Inr (failure err)"
      | (parsed) "\<exists>q fs f data ms hm c r m perf g.
            subprocess_run (sim config) = Inr q \<and> returncode q = 0
            \<and> glob (sim config) = Inr fs \<and> fs \<noteq> []
            \<and> max_by_mtime fs = Inr f \<and> json_load f = Inr data
            \<and> subscript data ''modes'' = Inr ms \<and> subscript ms ''hybrid'' = Inr hm
            \<and> subscript hm ''correlation'' = Inr c \<and> subscript hm ''rmse'' = Inr r
            \<and> subscript hm ''mae'' = Inr m \<and> subscript hm ''performance'' = Inr perf
            \<and> subscript perf ''avgRegret'' = Inr g"
      by blast
    then show "\<exists>err. evaluate_config sim config = failure err"
    proof cases
      case raised
      then have "evaluate_config sim config
                 = failure (if e = TimeoutExpired then PyStr ''Timeout'' else PyStrOf e)"
        by (simp add: evaluate_config_handlers)
      then show ?thesis by blast
    next
      case failed
      then have "evaluate_config sim config = failure err"
        by (simp add: evaluate_config_handlers)
      then show ?thesis by blast
    next
      case parsed
      with n show ?thesis by blast
    qed
  qed
  have paths: "subprocess_run (sim config) = Inl TimeoutExpired
        \<longrightarrow> evaluate_config sim config = failure (PyStr ''Timeout'')"
    "subprocess_run (sim config) = Inr p \<and> returncode p \<noteq> 0
        \<longrightarrow> evaluate_config sim config = failure (PyStr (stderr p))"
    "subprocess_run (sim config) = Inr p \<and> returncode p = 0 \<and> glob (sim config) = Inr []
        \<longrightarrow> evaluate_config sim config = failure (PyStr ''No results file'')"
    "evaluate_config_try (sim config) = Inl e \<and> e \<noteq> TimeoutExpired
        \<longrightarrow> evaluate_config sim config = failure (PyStrOf e)"
    by (simp_all add: evaluate_config_handlers evaluate_config_try_def)
  have ent: "failure err ''error'' = Some err \<and> failure err ''correlation'' = Some (PyFloat 0.0)
       \<and> failure err ''rmse'' = Some (PyFloat 999.0) \<and> failure err ''mae'' = Some (PyFloat 999.0)
       \<and> failure err ''regret'' = Some (PyFloat 999.0)"
    by (simp only: failure_entries simp_thms)
  show ?thesis by (intro conjI ret succ fail ent paths)
qed


theorem evaluate_config_total_witness:
  "subprocess_run ((\<lambda>c. sim_timeout) feasible_candidate) = Inl TimeoutExpired
   \<and> evaluate_config (\<lambda>c. sim_timeout) feasible_candidate = failure (PyStr ''Timeout'')
   \<and> subprocess_run ((\<lambda>c. sim_exit) feasible_candidate)
        = Inr \<lparr>returncode = 1, stderr = ''npx: not found''\<rparr>
   \<and> returncode \<lparr>returncode = 1, stderr = ''npx: not found''\<rparr> \<noteq> 0
   \<and> evaluate_config (\<lambda>c. sim_exit) feasible_candidate = failure (PyStr ''npx: not found'')
   \<and> subprocess_run ((\<lambda>c. sim_no_file) feasible_candidate) = Inr \<lparr>returncode = 0, stderr = []\<rparr>
   \<and> glob ((\<lambda>c. sim_no_file) feasible_candidate) = Inr []
   \<and> evaluate_config (\<lambda>c. sim_no_file) feasible_candidate = failure (PyStr ''No results file'')
   \<and> evaluate_config_try ((\<lambda>c. sim_bad_json) feasible_candidate) = Inl (Raised ''Expecting value'')
   \<and> evaluate_config (\<lambda>c. sim_bad_json) feasible_candidate
        = failure (PyStrOf (Raised ''Expecting value''))
   \<and> subprocess_run ((\<lambda>c. sim_metrics (PyFloat 0.8) (PyFloat 0.7)) feasible_candidate)
        = Inr \<lparr>returncode = 0, stderr = []\<rparr>
   \<and> glob ((\<lambda>c. sim_metrics (PyFloat 0.8) (PyFloat 0.7)) feasible_candidate)
        = Inr [\<lparr>st_mtime = Inr 1, json_load = Inr (metrics_json (PyFloat 0.8) (PyFloat 0.7))\<rparr>]
   \<and> max_by_mtime [\<lparr>st_mtime = Inr 1, json_load = Inr (metrics_json (PyFloat 0.8) (PyFloat 0.7))\<rparr>]
        = Inr \<lparr>st_mtime = Inr 1, json_load = Inr (metrics_json (PyFloat 0.8) (PyFloat 0.7))\<rparr>
   \<and> subscript (PyDict [(''avgRegret'', PyFloat 0.1)]) ''avgRegret'' = Inr (PyFloat 0.1)
   \<and> evaluate_config (\<lambda>c. sim_metrics (PyFloat 0.8) (PyFloat 0.7)) feasible_candidate
        = [''correlation'' \<mapsto> PyFloat 0.8, ''rmse'' \<mapsto> PyFloat 0.7, ''mae'' \<mapsto> PyFloat 0.5,
           ''regret'' \<mapsto> PyFloat 0.1]
   \<and> evaluate_config (\<lambda>c. sim_metrics (PyFloat 0.8) (PyFloat 0.7)) feasible_candidate ''error''
        = None"
  using evaluate_config_total [where sim = "\<lambda>c. sim_timeout" and config = feasible_candidate]
    evaluate_config_total [where sim = "\<lambda>c. sim_exit" and config = feasible_candidate
      and p = "\<lparr>returncode = 1, stderr = ''npx: not found''\<rparr>"]
    evaluate_config_total [where sim = "\<lambda>c. sim_no_file" and config = feasible_candidate
      and p = "\<lparr>returncode = 0, stderr = []\<rparr>"]
    evaluate_config_total [where sim = "\<lambda>c. sim_bad_json" and config = feasible_candidate
      and e = "Raised ''Expecting value''"]
    evaluate_config_total [where sim = "\<lambda>c. sim_metrics (PyFloat 0.8) (PyFloat 0.7)"
      and config = feasible_candidate
      and q = "\<lparr>returncode = 0, stderr = []\<rparr>"
      and fs = "[\<lparr>st_mtime = Inr 1, json_load = Inr (metrics_json (PyFloat 0.8) (PyFloat 0.7))\<rparr>]"
      and f = "\<lparr>st_mtime = Inr 1, json_load = Inr (metrics_json (PyFloat 0.8) (PyFloat 0.7))\<rparr>"
      and data = "metrics_json (PyFloat 0.8) (PyFloat 0.7)"
      and ms = "PyDict [(''hybrid'', PyDict
         [(''correlation'', PyFloat 0.8), (''rmse'', PyFloat 0.7), (''mae'', PyFloat 0.5),
          (''performance'', PyDict [(''avgRegret'', PyFloat 0.1)])])]"
      and hm = "PyDict
         [(''correlation'', PyFloat 0.8), (''rmse'', PyFloat 0.7), (''mae'', PyFloat 0.5),
          (''performance'', PyDict [(''avgRegret'', PyFloat 0.1)])]"
      and c = "PyFloat 0.8" and r = "PyFloat 0.7" and m = "PyFloat 0.5"
      and perf = "PyDict [(''avgRegret'', PyFloat 0.1)]" and g = "PyFloat 0.1"]
  by (simp add: sim_timeout_def sim_exit_def sim_no_file_def sim_bad_json_def sim_metrics_def
      metrics_json_def evaluate_config_handlers evaluate_config_try_def max_by_mtime_def)

section \<open>One trial\<close>

lemma ewo_infeasible:
  "\<not> validate_config c \<Longrightarrow> evaluate_with_objective sim c = Inr ([InvalidConfig], 999)"
  by (simp add: evaluate_with_objective_def)

lemma ewo_failed:
  "validate_config c \<Longrightarrow> evaluate_config sim c ''error'' = Some err \<Longrightarrow>
     evaluate_with_objective sim c = Inr ([EvaluatingConfig c, EvaluationFailed err], 999)"
  by (simp add: evaluate_with_objective_def)

lemma ewo_penalised:
  assumes "\<not> validate_config c \<or> evaluate_config sim c ''error'' \<noteq> None"
  shows "\<exists>out. evaluate_with_objective sim c = Inr (out, 999) \<and> (\<forall>a b v. Results a b v \<notin> set out)"
proof (cases "validate_config c")
  case False
  then show ?thesis by (simp add: ewo_infeasible)
next
  case True
  with assms obtain err where "evaluate_config sim c ''error'' = Some err" by auto
  with True show ?thesis by (simp add: ewo_failed)
qed

lemma trial_body_result:
  assumes "ask E (optimizer s) = (c, asked)"
    and "evaluate_with_objective (simulate E i) c = Inr (out, y)"
  shows "trial_body E n_iter i s =
     Inr (if - y > best_objective s
          then s\<lparr>optimizer := tell E asked c y,
                 all_results := all_results s @ [\<lparr>iteration = i + 1, params = c, objective = - y,
                                                    is_valid = validate_config c\<rparr>],
                 best_objective := - y, best_config := Some c,
                 best_metrics := Some \<lparr>iteration = i + 1, params = c, objective = - y,
                                         is_valid = validate_config c\<rparr>,
                 no_improvement_count := 0,
                 stdout := stdout s @ IterationHeader (i + 1) n_iter # out @ [NewBest (- y)]\<rparr>
          else s\<lparr>optimizer := tell E asked c y,
                 all_results := all_results s @ [\<lparr>iteration = i + 1, params = c, objective = - y,
                                                    is_valid = validate_config c\<rparr>],
                 no_improvement_count := no_improvement_count s + 1,
                 stdout := stdout s @ IterationHeader (i + 1) n_iter # out\<rparr>)"
  using assms by (simp add: trial_body_def Let_def)

lemma trial_body_raises:
  assumes "ask E (optimizer s) = (c, asked)"
    and "evaluate_with_objective (simulate E i) c = Inl e"
  shows "trial_body E n_iter i s = Inl e"
  using assms by (simp add: trial_body_def)

lemma trial_body_Inr_iff:
  assumes "ask E (optimizer s) = (c, asked)" and "trial_body E n_iter i s = Inr s'"
  shows "\<exists>out y. evaluate_with_objective (simulate E i) c = Inr (out, y)"
proof (cases "evaluate_with_objective (simulate E i) c")
  case (Inl e)
  with assms show ?thesis by (simp add: trial_body_raises)
next
  case (Inr r)
  then show ?thesis by (cases r) simp
qed


lemma infeasible_candidate_invalid: "\<not> validate_config infeasible_candidate"
  by (simp add: validate_config_def infeasible_candidate_def)

lemma feasible_candidate_valid: "validate_config feasible_candidate"
  by (simp add: validate_config_def feasible_candidate_def)




section \<open>The loop and the trial history\<close>

lemma tracked_Nil: "tracked [] = \<lparr>run_objective = - 999, run_config = None, run_metrics = None, run_count = 0\<rparr>"
  by (simp add: tracked_def)

lemma tracked_snoc: "tracked (ts @ [t]) = track (tracked ts) t"
  by (simp add: tracked_def)

lemma trial_body_step:
  assumes "trial_body E n_iter i s = Inr s'"
  shows "\<exists>t. all_results s' = all_results s @ [t] \<and> iteration t = i + 1
             \<and> in_memory s' = track (in_memory s) t \<and> results_dir s' = results_dir s"
proof -
  obtain c asked where a: "ask E (optimizer s) = (c, asked)" by (cases "ask E (optimizer s)")
  from trial_body_Inr_iff [OF a assms] obtain out y
    where e: "evaluate_with_objective (simulate E i) c = Inr (out, y)" by blast
  from assms show ?thesis
    unfolding trial_body_result [OF a e]
    by (auto simp: in_memory_def track_def split: if_splits)
qed

lemma checkpoint_step:
  assumes "checkpoint E i s = Inr s'"
  shows "all_results s' = all_results s \<and> in_memory s' = in_memory s
         \<and> optimizer s' = optimizer s
         \<and> results_dir s' = results_dir s @
              (if (i + 1) mod 10 = 0
               then [\<lparr>json_best_config = best_config s,
                      json_best_objective = map_option objective (best_metrics s),
                      json_all_results = all_results s\<rparr>]
               else [])"
  using assms
  by (auto simp: checkpoint_def save_results_def in_memory_def and_then_def
      split: if_splits option.splits)

lemma snapshot_in_memory:
  assumes "in_memory s = tracked (all_results s)"
  shows "\<lparr>json_best_config = best_config s,
          json_best_objective = map_option objective (best_metrics s),
          json_all_results = all_results s\<rparr> = snapshot_after (all_results s)"
  using assms [symmetric] by (simp add: snapshot_after_def in_memory_def)

lemma for_loop_cases:
  assumes "for_loop E p n i s = Inr (how, s')"
  shows "(\<not> int i < n \<and> how = STOPPED_BUDGET \<and> s' = s)
       \<or> (int i < n \<and> (\<exists>s1. trial_body E n i s = Inr s1
            \<and> ((p \<le> no_improvement_count s1 \<and> how = STOPPED_EARLY
                  \<and> s' = s1\<lparr>stdout := stdout s1 @ [EarlyStopping p]\<rparr>)
               \<or> (no_improvement_count s1 < p
                  \<and> (\<exists>s2. checkpoint E i s1 = Inr s2
                        \<and> for_loop E p n (i + 1) s2 = Inr (how, s'))))))"
proof (cases "int i < n")
  case False
  with assms show ?thesis by (simp add: for_loop.simps [of E p n i s])
next
  case True
  show ?thesis
  proof (cases "trial_body E n i s")
    case (Inl e)
    with True assms show ?thesis by (simp add: for_loop.simps [of E p n i s])
  next
    case (Inr s1)
    show ?thesis
    proof (cases "p \<le> no_improvement_count s1")
      case True
      with \<open>int i < n\<close> Inr assms show ?thesis by (simp add: for_loop.simps [of E p n i s])
    next
      case False
      with \<open>int i < n\<close> Inr assms show ?thesis
        by (cases "checkpoint E i s1") (simp_all add: for_loop.simps [of E p n i s])
    qed
  qed
qed


lemma for_loop_history:
  assumes "for_loop E p n i s = Inr (how, s')"
    and "in_memory s = tracked (all_results s)"
    and "length (all_results s) = i"
    and "\<forall>k\<le>i. run_count (tracked (take k (all_results s))) < p"
  shows "in_memory s' = tracked (all_results s')
     \<and> take i (all_results s') = all_results s
     \<and> i \<le> length (all_results s')
     \<and> (\<forall>k<length (all_results s'). run_count (tracked (take k (all_results s'))) < p)
     \<and> (how = STOPPED_EARLY \<longrightarrow>
          run_count (tracked (all_results s')) = p \<and> i < length (all_results s')
          \<and> int (length (all_results s')) \<le> n)
     \<and> (how = STOPPED_BUDGET \<longrightarrow>
          run_count (tracked (all_results s')) < p
          \<and> int (length (all_results s')) = max n (int i))
     \<and> results_dir s' = results_dir s @
          map (\<lambda>k. snapshot_after (take k (all_results s')))
            [k \<leftarrow> [Suc i ..< Suc (length (all_results s'))].
               k mod 10 = 0 \<and> (k < length (all_results s') \<or> how = STOPPED_BUDGET)]"
  using assms
proof (induction E p n i s rule: for_loop.induct)
  case (1 E p n i s)
  note run = \<open>for_loop E p n i s = Inr (how, s')\<close>
  note mem = \<open>in_memory s = tracked (all_results s)\<close>
  note len = \<open>length (all_results s) = i\<close>
  note low = \<open>\<forall>k\<le>i. run_count (tracked (take k (all_results s))) < p\<close>
  from low len have here: "run_count (tracked (all_results s)) < p" by auto
  from for_loop_cases [OF run]
  consider (budget) "\<not> int i < n" "how = STOPPED_BUDGET" "s' = s"
    | (early) s1 where "int i < n" "trial_body E n i s = Inr s1" "p \<le> no_improvement_count s1"
        "how = STOPPED_EARLY" "s' = s1\<lparr>stdout := stdout s1 @ [EarlyStopping p]\<rparr>"
    | (continue) s1 s2 where "int i < n" "trial_body E n i s = Inr s1"
        "no_improvement_count s1 < p" "checkpoint E i s1 = Inr s2"
        "for_loop E p n (i + 1) s2 = Inr (how, s')"
    by blast
  then show ?case
  proof cases
    case budget
    with mem len low here show ?thesis by (auto simp: max_def)
  next
    case early
    from trial_body_step [OF early(2)] obtain t
      where t: "all_results s1 = all_results s @ [t]" "in_memory s1 = track (in_memory s) t"
        "results_dir s1 = results_dir s" by blast
    have mem1: "in_memory s1 = tracked (all_results s1)"
      using t mem by (simp add: tracked_snoc)
    have c1: "no_improvement_count s1 = run_count (tracked (all_results s1))"
      using mem1 [symmetric] by (simp add: in_memory_def)
    have le: "run_count (tracked (all_results s1)) \<le> p"
      using here t(1) by (simp add: tracked_snoc track_def)
    have all1: "all_results s' = all_results s @ [t]" "results_dir s' = results_dir s"
      "in_memory s' = in_memory s1"
      using early(5) t by (simp_all add: in_memory_def)
    have low': "\<forall>k<length (all_results s'). run_count (tracked (take k (all_results s'))) < p"
      using low len all1(1) by simp
    from all1 mem1 t(1) len le c1 early low' show ?thesis by simp
  next
    case continue
    from trial_body_step [OF continue(2)] obtain t
      where t: "all_results s1 = all_results s @ [t]" "in_memory s1 = track (in_memory s) t"
        "results_dir s1 = results_dir s" by blast
    have mem1: "in_memory s1 = tracked (all_results s1)"
      using t mem by (simp add: tracked_snoc)
    have c1: "no_improvement_count s1 = run_count (tracked (all_results s1))"
      using mem1 [symmetric] by (simp add: in_memory_def)
    note cp = checkpoint_step [OF continue(4)]
    have mem2: "in_memory s2 = tracked (all_results s2)" using cp mem1 by simp
    have len2: "length (all_results s2) = i + 1" using cp t(1) len by simp
    have low2: "\<forall>k\<le>i + 1. run_count (tracked (take k (all_results s2))) < p"
    proof (intro allI impI)
      fix k assume "k \<le> i + 1"
      show "run_count (tracked (take k (all_results s2))) < p"
      proof (cases "k \<le> i")
        case True
        with low len cp t(1) show ?thesis by simp
      next
        case False
        with \<open>k \<le> i + 1\<close> have "k = i + 1" by simp
        with cp t(1) len c1 continue(3) show ?thesis by simp
      qed
    qed
    from continue(3) have notle: "\<not> p \<le> no_improvement_count s1" by simp
    note ih = "1.IH" [OF continue(1) notle continue(5) mem2 len2 low2]
    let ?ts = "all_results s'" and ?L = "length (all_results s')"
    from ih have tk: "take (i + 1) ?ts = all_results s @ [t]" and ge: "i + 1 \<le> ?L"
      using cp t(1) by simp_all
    have pre: "take i ?ts = all_results s"
      using arg_cong [OF tk, of "take i"] len by (simp add: min_def)
    have far: "Suc i < ?L \<or> how = STOPPED_BUDGET"
      using ih ge by (cases how) auto
    have doc: "\<lparr>json_best_config = best_config s1,
          json_best_objective = map_option objective (best_metrics s1),
          json_all_results = all_results s1\<rparr> = snapshot_after (take (Suc i) ?ts)"
      using snapshot_in_memory [OF mem1] tk t(1) by simp
    have upt: "[Suc i ..< Suc ?L] = Suc i # [Suc (i + 1) ..< Suc ?L]"
      using ge by (simp add: upt_conv_Cons)
    have dir2: "results_dir s2 = results_dir s @
        (if Suc i mod 10 = 0 then [snapshot_after (take (Suc i) ?ts)] else [])"
      using cp t(3) doc by simp
    have dir: "results_dir s' = results_dir s @
          map (\<lambda>k. snapshot_after (take k ?ts))
            [k \<leftarrow> [Suc i ..< Suc ?L]. k mod 10 = 0 \<and> (k < ?L \<or> how = STOPPED_BUDGET)]"
      using ih far unfolding upt dir2 by auto
    have bud: "how = STOPPED_BUDGET \<longrightarrow> int ?L = max n (int i)"
      using ih continue(1) by (auto simp: max_def)
    from ih pre ge dir bud show ?thesis by auto
  qed
qed

lemma initial_in_memory:
  "in_memory (initial_state E n_initial) = tracked (all_results (initial_state E n_initial))"
  by (simp add: in_memory_def initial_state_def tracked_Nil)

lemma optimization_Inr:
  assumes "optimization E p n n_initial = Inr (how, r)"
  shows "\<exists>s. for_loop E p n 0 (initial_state E n_initial) = Inr (how, s)
             \<and> r = s\<lparr>stdout := stdout s @ [OptimizationComplete]\<rparr>"
  using assms unfolding optimization_def
  by (cases "for_loop E p n 0 (initial_state E n_initial)") auto

lemma optimization_history:
  assumes "optimization E p n n_initial = Inr (how, r)" and "0 < p"
  shows "in_memory r = tracked (all_results r)
     \<and> (\<forall>k<length (all_results r). run_count (tracked (take k (all_results r))) < p)
     \<and> (how = STOPPED_EARLY \<longrightarrow>
          run_count (tracked (all_results r)) = p \<and> 0 < length (all_results r)
          \<and> int (length (all_results r)) \<le> n)
     \<and> (how = STOPPED_BUDGET \<longrightarrow>
          run_count (tracked (all_results r)) < p
          \<and> int (length (all_results r)) = max n 0)
     \<and> results_dir r =
          map (\<lambda>k. snapshot_after (take k (all_results r)))
            [k \<leftarrow> [Suc 0 ..< Suc (length (all_results r))].
               k mod 10 = 0 \<and> (k < length (all_results r) \<or> how = STOPPED_BUDGET)]"
proof -
  from optimization_Inr [OF assms(1)] obtain s
    where run: "for_loop E p n 0 (initial_state E n_initial) = Inr (how, s)"
      and r: "r = s\<lparr>stdout := stdout s @ [OptimizationComplete]\<rparr>" by blast
  have l: "length (all_results (initial_state E n_initial)) = 0"
    by (simp add: initial_state_def)
  have z: "\<forall>k\<le>0. run_count (tracked (take k (all_results (initial_state E n_initial)))) < p"
    using assms(2) by (simp add: tracked_Nil)
  have d: "results_dir (initial_state E n_initial) = []" by (simp add: initial_state_def)
  have same: "all_results r = all_results s" "results_dir r = results_dir s"
    "in_memory r = in_memory s"
    using r by (simp_all add: in_memory_def)
  from for_loop_history [OF run initial_in_memory l z] show ?thesis
    unfolding same d by simp
qed

lemma trial_body_update:
  assumes "trial_body E n_iter i s = Inr s'"
  shows "\<exists>t. all_results s' = all_results s @ [t]
          \<and> (if objective t > best_objective s
              then best_objective s' = objective t \<and> best_config s' = Some (params t)
                   \<and> best_metrics s' = Some t \<and> no_improvement_count s' = 0
              else best_objective s' = best_objective s \<and> best_config s' = best_config s
                   \<and> best_metrics s' = best_metrics s
                   \<and> no_improvement_count s' = no_improvement_count s + 1)"
proof -
  from trial_body_step [OF assms] obtain t
    where t: "all_results s' = all_results s @ [t]" "in_memory s' = track (in_memory s) t"
    by blast
  have "best_objective s' = run_objective (track (in_memory s) t)"
    "best_config s' = run_config (track (in_memory s) t)"
    "best_metrics s' = run_metrics (track (in_memory s) t)"
    "no_improvement_count s' = run_count (track (in_memory s) t)"
    using arg_cong [OF t(2), of run_objective] arg_cong [OF t(2), of run_config]
      arg_cong [OF t(2), of run_metrics] arg_cong [OF t(2), of run_count]
    by (simp_all add: in_memory_def [of s'])
  with t(1) show ?thesis by (auto simp: track_def in_memory_def)
qed

lemma tracked_tail:
  "run_count (tracked ts) \<le> length ts
   \<and> (\<forall>t\<in>set (drop (length ts - run_count (tracked ts)) ts). objective t \<le> run_objective (tracked ts))"
proof (induction ts rule: rev_induct)
  case Nil
  then show ?case by (simp add: tracked_Nil)
next
  case (snoc t ts)
  show ?case
  proof (cases "objective t > run_objective (tracked ts)")
    case True
    then show ?thesis by (simp add: tracked_snoc track_def)
  next
    case False
    with snoc show ?thesis by (simp add: tracked_snoc track_def Suc_diff_le)
  qed
qed

lemma patience_zero:
  assumes "optimization E 0 n n_initial = Inr (how, r)" and "0 < n"
  shows "how = STOPPED_EARLY \<and> length (all_results r) = 1"
proof -
  from optimization_Inr [OF assms(1)] obtain s
    where run: "for_loop E 0 n 0 (initial_state E n_initial) = Inr (how, s)"
      and r: "r = s\<lparr>stdout := stdout s @ [OptimizationComplete]\<rparr>" by blast
  from for_loop_cases [OF run] assms(2) obtain s1
    where "trial_body E n 0 (initial_state E n_initial) = Inr s1" "how = STOPPED_EARLY"
      "s = s1\<lparr>stdout := stdout s1 @ [EarlyStopping 0]\<rparr>" by auto
  with trial_body_step [of E n 0 "initial_state E n_initial" s1] r show ?thesis
    by (auto simp: initial_state_def)
qed

section \<open>Runs of the concrete environments\<close>

lemma scored_eval:
  "evaluate_with_objective (\<lambda>c. sim_good) feasible_candidate
     = Inr ([EvaluatingConfig feasible_candidate, Results (4 / 5) (7 / 10) (51 / 100)], - (51 / 100))"
  by (simp add: evaluate_with_objective_def feasible_candidate_valid evaluate_config_def
      evaluate_config_try_def sim_good_def sim_metrics_def metrics_json_def max_by_mtime_def
      objective_unfold)

lemma ended_Inr: "ended x = Inr h \<Longrightarrow> \<exists>r. x = Inr (h, r)"
  by (cases x) (auto simp: ended_def)

lemmas run_simps = optimization_def for_loop.simps trial_body_def checkpoint_def
  save_results_def recording_def initial_state_def fs_ok_def Let_def

lemma scored_run_3:
  "ended (optimization env_scored 3 150 25) = Inr STOPPED_EARLY"
  "trials_done (optimization env_scored 3 150 25) = Inr 4"
  by (simp_all add: ended_def trials_done_def env_scored_def run_simps scored_eval)

text \<open>
  C3. In every iteration, a trial whose objective is strictly greater than the
  running best becomes the best and resets the counter to 0; any other trial adds
  1 to the counter. For a patience \<open>p > 0\<close>, in a run that returns, the counter
  is the number of trials since the last improvement; it was below \<open>p\<close> after
  every earlier trial; the run ends by early stopping exactly when the counter
  equals \<open>p\<close> at its last trial, and then the last \<open>p\<close> trials did not improve;
  otherwise it ends with the budget. With patience 0 the loop stops after its
  first trial. \<^verbatim>\<open>run_optimization\<close> is the loop with the patience 25.
\<close>

theorem early_stopping_exact:
  "(\<forall>s'. trial_body E n i s = Inr s' \<longrightarrow>
      (\<exists>t. all_results s' = all_results s @ [t]
          \<and> (if objective t > best_objective s
              then best_objective s' = objective t \<and> best_config s' = Some (params t)
                   \<and> best_metrics s' = Some t \<and> no_improvement_count s' = 0
              else best_objective s' = best_objective s \<and> best_config s' = best_config s
                   \<and> best_metrics s' = best_metrics s
                   \<and> no_improvement_count s' = no_improvement_count s + 1)))
   \<and> (\<forall>how r. 0 < p \<and> optimization E p n n_initial = Inr (how, r) \<longrightarrow>
        no_improvement_count r = run_count (tracked (all_results r))
        \<and> (\<forall>k<length (all_results r). run_count (tracked (take k (all_results r))) < p)
        \<and> (how = STOPPED_EARLY \<longleftrightarrow> no_improvement_count r = p)
        \<and> (how = STOPPED_EARLY \<longrightarrow>
             p \<le> length (all_results r)
             \<and> (\<forall>t\<in>set (drop (length (all_results r) - p) (all_results r)).
                   objective t \<le> best_objective r))
        \<and> (how = STOPPED_BUDGET \<longrightarrow> int (length (all_results r)) = max n 0))
   \<and> (\<forall>how r. 0 < n \<and> optimization E 0 n n_initial = Inr (how, r) \<longrightarrow>
        how = STOPPED_EARLY \<and> length (all_results r) = 1)
   \<and> run_optimization E n n_initial = optimization E EARLY_STOP_PATIENCE n n_initial
   \<and> EARLY_STOP_PATIENCE = 25"
proof -
  have p1: "\<forall>s'. trial_body E n i s = Inr s' \<longrightarrow>
      (\<exists>t. all_results s' = all_results s @ [t]
          \<and> (if objective t > best_objective s
              then best_objective s' = objective t \<and> best_config s' = Some (params t)
                   \<and> best_metrics s' = Some t \<and> no_improvement_count s' = 0
              else best_objective s' = best_objective s \<and> best_config s' = best_config s
                   \<and> best_metrics s' = best_metrics s
                   \<and> no_improvement_count s' = no_improvement_count s + 1))"
    using trial_body_update [of E n i s] by blast
  have p2: "\<forall>how r. 0 < p \<and> optimization E p n n_initial = Inr (how, r) \<longrightarrow>
        no_improvement_count r = run_count (tracked (all_results r))
        \<and> (\<forall>k<length (all_results r). run_count (tracked (take k (all_results r))) < p)
        \<and> (how = STOPPED_EARLY \<longleftrightarrow> no_improvement_count r = p)
        \<and> (how = STOPPED_EARLY \<longrightarrow>
             p \<le> length (all_results r)
             \<and> (\<forall>t\<in>set (drop (length (all_results r) - p) (all_results r)).
                   objective t \<le> best_objective r))
        \<and> (how = STOPPED_BUDGET \<longrightarrow> int (length (all_results r)) = max n 0)"
  proof (intro allI impI)
    fix how r assume a: "0 < p \<and> optimization E p n n_initial = Inr (how, r)"
    then have h: "in_memory r = tracked (all_results r)"
      "\<forall>k<length (all_results r). run_count (tracked (take k (all_results r))) < p"
      "how = STOPPED_EARLY \<longrightarrow> run_count (tracked (all_results r)) = p"
      "how = STOPPED_BUDGET \<longrightarrow> run_count (tracked (all_results r)) < p
          \<and> int (length (all_results r)) = max n 0"
      using optimization_history [of E p n n_initial how r] by simp_all
    have c: "no_improvement_count r = run_count (tracked (all_results r))"
      and b: "best_objective r = run_objective (tracked (all_results r))"
      using h(1) [symmetric] by (simp_all add: in_memory_def)
    note tl = tracked_tail [of "all_results r"]
    have q3: "(how = STOPPED_EARLY) = (no_improvement_count r = p)"
      using h(3,4) c by (cases how) auto
    have q4: "how = STOPPED_EARLY \<longrightarrow>
             p \<le> length (all_results r)
             \<and> (\<forall>t\<in>set (drop (length (all_results r) - p) (all_results r)).
                   objective t \<le> best_objective r)"
      using h(3) tl b by auto
    have q5: "how = STOPPED_BUDGET \<longrightarrow> int (length (all_results r)) = max n 0"
      using h(4) by simp
    show "no_improvement_count r = run_count (tracked (all_results r))
        \<and> (\<forall>k<length (all_results r). run_count (tracked (take k (all_results r))) < p)
        \<and> (how = STOPPED_EARLY \<longleftrightarrow> no_improvement_count r = p)
        \<and> (how = STOPPED_EARLY \<longrightarrow>
             p \<le> length (all_results r)
             \<and> (\<forall>t\<in>set (drop (length (all_results r) - p) (all_results r)).
                   objective t \<le> best_objective r))
        \<and> (how = STOPPED_BUDGET \<longrightarrow> int (length (all_results r)) = max n 0)"
      by (intro conjI c h(2) q3 q4 q5)
  qed
  have p3: "\<forall>how r. 0 < n \<and> optimization E 0 n n_initial = Inr (how, r) \<longrightarrow>
        how = STOPPED_EARLY \<and> length (all_results r) = 1"
    using patience_zero [of E n n_initial] by blast
  have p4: "run_optimization E n n_initial = optimization E EARLY_STOP_PATIENCE n n_initial"
    by (simp add: run_optimization_def)
  have p5: "EARLY_STOP_PATIENCE = 25" by (simp add: EARLY_STOP_PATIENCE_def)
  show ?thesis by (intro conjI p1 p2 p3 p4 p5)
qed

theorem early_stopping_exact_witness:
  "(0::nat) < 3 \<and> ended (optimization env_scored 3 150 25) = Inr STOPPED_EARLY
   \<and> trials_done (optimization env_scored 3 150 25) = Inr 4
   \<and> (\<exists>r. optimization env_scored 3 150 25 = Inr (STOPPED_EARLY, r)
          \<and> no_improvement_count r = 3 \<and> 3 \<le> length (all_results r))"
proof -
  from ended_Inr [OF scored_run_3(1)] obtain r
    where run: "optimization env_scored 3 150 25 = Inr (STOPPED_EARLY, r)" by blast
  have "no_improvement_count r = 3 \<and> 3 \<le> length (all_results r)"
    using early_stopping_exact [of env_scored 150 0 "initial_state env_scored 25" 3 25,
        THEN conjunct2, THEN conjunct1, rule_format, of STOPPED_EARLY r] run
    by simp
  with run scored_run_3 show ?thesis by simp
qed

section \<open>The best-so-far is the greatest objective\<close>

lemma greatest_alt: "greatest ts = Max (insert (- 999) (objective ` set ts))"
  by (simp add: greatest_def)

lemma best_is_greatest_alt:
  "best_is_greatest s \<longleftrightarrow>
     best_objective s = greatest (all_results s)
     \<and> best_config s = (if - 999 < greatest (all_results s) then attaining_config s else None)"
  by (simp add: best_is_greatest_def)

lemma greatest_Nil: "greatest [] = - 999"
  by (simp add: greatest_alt)

lemma greatest_snoc: "greatest (ts @ [t]) = max (objective t) (greatest ts)"
proof -
  have "insert (- 999) (objective ` set (ts @ [t])) = insert (objective t) (insert (- 999) (objective ` set ts))"
    by auto
  then show ?thesis by (simp add: greatest_alt)
qed

lemma greatest_ge: "u \<in> set ts \<Longrightarrow> objective u \<le> greatest ts"
  by (simp add: greatest_alt)

lemma greatest_attained:
  assumes "- 999 < greatest ts"
  shows "\<exists>u\<in>set ts. objective u = greatest ts"
proof -
  have "greatest ts \<in> insert (- 999) (objective ` set ts)"
    unfolding greatest_alt by (rule Max_in) simp_all
  with assms show ?thesis by auto
qed

lemma find_snoc:
  "find P (xs @ [x]) = (case find P xs of Some y \<Rightarrow> Some y | None \<Rightarrow> if P x then Some x else None)"
  by (induction xs) simp_all

lemma best_is_greatest_initial: "best_is_greatest (initial_state E n_initial)"
  by (simp add: best_is_greatest_alt initial_state_def greatest_Nil)

lemma best_is_greatest_trial:
  assumes "best_is_greatest s" and "trial_body E n i s = Inr s'"
  shows "best_is_greatest s'"
proof -
  from trial_body_update [OF assms(2)] obtain t
    where t: "all_results s' = all_results s @ [t]"
      and u: "if objective t > best_objective s
              then best_objective s' = objective t \<and> best_config s' = Some (params t)
                   \<and> best_metrics s' = Some t \<and> no_improvement_count s' = 0
              else best_objective s' = best_objective s \<and> best_config s' = best_config s
                   \<and> best_metrics s' = best_metrics s
                   \<and> no_improvement_count s' = no_improvement_count s + 1" by blast
  let ?g = "greatest (all_results s)"
  from assms(1) have g: "best_objective s = ?g"
    and c: "best_config s = (if - 999 < ?g then attaining_config s else None)"
    by (simp_all add: best_is_greatest_alt)
  have low: "- 999 \<le> ?g" by (simp add: greatest_alt)
  show ?thesis
  proof (cases "objective t > best_objective s")
    case True
    with u have b: "best_objective s' = objective t" "best_config s' = Some (params t)" by simp_all
    from True g have g'': "greatest (all_results s @ [t]) = objective t"
      by (simp add: greatest_snoc max_def)
    then have g': "greatest (all_results s') = objective t" by (simp add: t)
    have "find (\<lambda>u. objective u = objective t) (all_results s) = None"
      using True g greatest_ge [of _ "all_results s"] by (fastforce simp: find_None_iff)
    then have "attaining_config s' = Some (params t)"
      by (simp add: attaining_config_def first_attaining_def g'' t find_snoc)
    with b g' True g low show ?thesis by (simp add: best_is_greatest_alt)
  next
    case False
    with u have b: "best_objective s' = best_objective s" "best_config s' = best_config s" by simp_all
    from False g have g'': "greatest (all_results s @ [t]) = ?g"
      by (simp add: greatest_snoc max_def)
    then have g': "greatest (all_results s') = ?g" by (simp add: t)
    have "attaining_config s' = attaining_config s" if "- 999 < ?g"
    proof -
      from greatest_attained [OF that] obtain v
        where "find (\<lambda>u. objective u = ?g) (all_results s) = Some v"
        by (cases "find (\<lambda>u. objective u = ?g) (all_results s)") (auto simp: find_None_iff)
      then show ?thesis
        by (simp add: attaining_config_def first_attaining_def g'' t find_snoc)
    qed
    with b g' g c show ?thesis by (simp add: best_is_greatest_alt)
  qed
qed

lemma best_is_greatest_checkpoint:
  assumes "best_is_greatest s" and "checkpoint E i s = Inr s'"
  shows "best_is_greatest s'"
proof -
  from checkpoint_step [OF assms(2)] have "all_results s' = all_results s" "in_memory s' = in_memory s"
    by simp_all
  then have "all_results s' = all_results s" "best_objective s' = best_objective s"
    "best_config s' = best_config s"
    using arg_cong [of "in_memory s'" "in_memory s" run_objective]
      arg_cong [of "in_memory s'" "in_memory s" run_config]
    by (simp_all add: in_memory_def)
  with assms(1) show ?thesis by (simp add: best_is_greatest_alt attaining_config_def)
qed

lemma best_is_greatest_loop:
  assumes "for_loop E p n i s = Inr (how, s')" and "best_is_greatest s"
  shows "best_is_greatest s'"
  using assms
proof (induction E p n i s rule: for_loop.induct)
  case (1 E p n i s)
  from for_loop_cases [OF "1.prems"(1)]
  consider (budget) "s' = s"
    | (early) s1 where "trial_body E n i s = Inr s1"
        "s' = s1\<lparr>stdout := stdout s1 @ [EarlyStopping p]\<rparr>"
    | (continue) s1 s2 where "int i < n" "trial_body E n i s = Inr s1"
        "no_improvement_count s1 < p" "checkpoint E i s1 = Inr s2"
        "for_loop E p n (i + 1) s2 = Inr (how, s')"
    by blast
  then show ?case
  proof cases
    case budget
    with "1.prems"(2) show ?thesis by simp
  next
    case early
    from best_is_greatest_trial [OF "1.prems"(2) early(1)] early(2) show ?thesis
      by (simp add: best_is_greatest_alt attaining_config_def)
  next
    case continue
    from continue(3) have notle: "\<not> p \<le> no_improvement_count s1" by simp
    from best_is_greatest_checkpoint [OF best_is_greatest_trial [OF "1.prems"(2) continue(2)] continue(4)]
    have "best_is_greatest s2" .
    from "1.IH" [OF continue(1) notle continue(5) this] show ?thesis .
  qed
qed

lemma best_is_greatest_run:
  assumes "optimization E p n n_initial = Inr (how, r)"
  shows "best_is_greatest r"
proof -
  from optimization_Inr [OF assms] obtain s
    where run: "for_loop E p n 0 (initial_state E n_initial) = Inr (how, s)"
      and r: "r = s\<lparr>stdout := stdout s @ [OptimizationComplete]\<rparr>" by blast
  from best_is_greatest_loop [OF run best_is_greatest_initial] r show ?thesis
    by (simp add: best_is_greatest_alt attaining_config_def)
qed

lemma final_best_config_Inr: "final_best_config x = Inr c \<Longrightarrow> x = Inr (how, r) \<Longrightarrow> best_config r = c"
  by (simp add: final_best_config_def)

lemma scored_run_2:
  "ended (run_optimization env_scored 2 25) = Inr STOPPED_BUDGET"
  "final_best_config (run_optimization env_scored 2 25) = Inr (Some feasible_candidate)"
  by (simp_all add: ended_def final_best_config_def run_optimization_def EARLY_STOP_PATIENCE_def
      env_scored_def run_simps scored_eval)

text \<open>
  C9, as the code has it. A trial never lowers the best objective and never
  unsets the best candidate, and a checkpoint changes neither. After every
  iteration the best objective is the greatest of -999.0 and the objectives of
  the trials so far; the best candidate is that of the first trial with this
  objective once some trial has exceeded -999.0, and is unset before. This holds
  of the initial state, is kept by every trial and every checkpoint, and so holds
  of the state that \<^verbatim>\<open>run_optimization\<close> returns.
\<close>

theorem best_so_far_monotone:
  "(\<forall>s'. trial_body E n i s = Inr s' \<longrightarrow>
       best_objective s \<le> best_objective s'
       \<and> (best_config s \<noteq> None \<longrightarrow> best_config s' \<noteq> None)
       \<and> (best_is_greatest s \<longrightarrow> best_is_greatest s'))
   \<and> (\<forall>s'. checkpoint E i s = Inr s' \<longrightarrow>
       best_objective s' = best_objective s \<and> best_config s' = best_config s
       \<and> all_results s' = all_results s)
   \<and> best_is_greatest (initial_state E n_initial)
   \<and> (\<forall>how r. run_optimization E n n_initial = Inr (how, r) \<longrightarrow>
       best_objective r = greatest (all_results r)
       \<and> best_config r = (if - 999 < greatest (all_results r) then attaining_config r else None))"
proof -
  have p1: "\<forall>s'. trial_body E n i s = Inr s' \<longrightarrow>
       best_objective s \<le> best_objective s'
       \<and> (best_config s \<noteq> None \<longrightarrow> best_config s' \<noteq> None)
       \<and> (best_is_greatest s \<longrightarrow> best_is_greatest s')"
  proof (intro allI impI)
    fix s' assume r: "trial_body E n i s = Inr s'"
    from trial_body_update [OF r] have "best_objective s \<le> best_objective s'"
      "best_config s \<noteq> None \<longrightarrow> best_config s' \<noteq> None"
      by (auto split: if_splits)
    moreover have "best_is_greatest s \<longrightarrow> best_is_greatest s'"
      using best_is_greatest_trial [OF _ r] by blast
    ultimately show "best_objective s \<le> best_objective s'
       \<and> (best_config s \<noteq> None \<longrightarrow> best_config s' \<noteq> None)
       \<and> (best_is_greatest s \<longrightarrow> best_is_greatest s')" by blast
  qed
  have p2: "\<forall>s'. checkpoint E i s = Inr s' \<longrightarrow>
       best_objective s' = best_objective s \<and> best_config s' = best_config s
       \<and> all_results s' = all_results s"
  proof (intro allI impI)
    fix s' assume "checkpoint E i s = Inr s'"
    from checkpoint_step [OF this] have "all_results s' = all_results s" "in_memory s' = in_memory s"
      by simp_all
    then show "best_objective s' = best_objective s \<and> best_config s' = best_config s
       \<and> all_results s' = all_results s"
      using arg_cong [of "in_memory s'" "in_memory s" run_objective]
        arg_cong [of "in_memory s'" "in_memory s" run_config]
      by (simp add: in_memory_def)
  qed
  have p4: "\<forall>how r. run_optimization E n n_initial = Inr (how, r) \<longrightarrow>
       best_objective r = greatest (all_results r)
       \<and> best_config r = (if - 999 < greatest (all_results r) then attaining_config r else None)"
    using best_is_greatest_run [of E EARLY_STOP_PATIENCE n n_initial]
    by (simp add: run_optimization_def best_is_greatest_alt)
  show ?thesis by (intro conjI p1 p2 p4 best_is_greatest_initial)
qed

theorem best_so_far_monotone_witness:
  "\<exists>r. run_optimization env_scored 2 25 = Inr (STOPPED_BUDGET, r)
        \<and> best_objective r = greatest (all_results r)
        \<and> best_config r = Some feasible_candidate"
proof -
  from ended_Inr [OF scored_run_2(1)] obtain r
    where run: "run_optimization env_scored 2 25 = Inr (STOPPED_BUDGET, r)" by blast
  have "best_objective r = greatest (all_results r)"
    using best_so_far_monotone [of env_scored 2 0 "initial_state env_scored 25" 25,
        THEN conjunct2, THEN conjunct2, THEN conjunct2, rule_format, of STOPPED_BUDGET r] run
    by simp
  with run final_best_config_Inr [OF scored_run_2(2) run] show ?thesis by simp
qed

theorem best_config_counterexample:
  "map_sum id best_objective (trial_body env_infeasible 150 0 (initial_state env_infeasible 25))
     = Inr (- 999)
   \<and> map_sum id attaining_config (trial_body env_infeasible 150 0 (initial_state env_infeasible 25))
     = Inr (Some infeasible_candidate)
   \<and> map_sum id best_config (trial_body env_infeasible 150 0 (initial_state env_infeasible 25))
     = Inr None"
  by (simp add: env_infeasible_def recording_def initial_state_def
      infeasible_candidate_invalid ewo_infeasible trial_body_def attaining_config_def
      first_attaining_def greatest_alt)

section \<open>Checkpoints\<close>

lemma trials_done_Inr: "trials_done x = Inr k \<Longrightarrow> x = Inr (how, r) \<Longrightarrow> length (all_results r) = k"
  by (simp add: trials_done_def)

lemma main_Inr:
  assumes "main E n n_initial = Inr r'"
  shows "\<exists>how r out.
           run_optimization E n n_initial = Inr (how, r)
           \<and> json_write (final_fs E) = None
           \<and> results_dir r' = results_dir r @
                [\<lparr>json_best_config = best_config r,
                  json_best_objective = map_option objective (best_metrics r),
                  json_all_results = all_results r\<rparr>]
           \<and> all_results r' = all_results r \<and> best_config r' = best_config r
           \<and> best_metrics r' = best_metrics r \<and> best_objective r' = best_objective r
           \<and> stdout r' = stdout r @ out @
                [case best_config r of
                   None \<Rightarrow> NoValidConfiguration
                 | Some c \<Rightarrow> BestConfiguration c (case best_metrics r of Some m \<Rightarrow> objective m | None \<Rightarrow> 0)]"
proof (cases "run_optimization E n n_initial")
  case (Inl e)
  with assms show ?thesis by (simp add: main_def)
next
  case (Inr hr)
  obtain how r where hr: "hr = (how, r)" by (cases hr)
  show ?thesis
  proof (cases "json_write (final_fs E)")
    case (Some e)
    with assms Inr hr show ?thesis by (simp add: main_def save_results_def)
  next
    case None
    with assms Inr hr show ?thesis
      by (auto simp: main_def save_results_def Let_def split: option.splits)
  qed
qed

lemma scored_run_10:
  "ended (run_optimization env_scored 10 25) = Inr STOPPED_BUDGET"
  "trials_done (run_optimization env_scored 10 25) = Inr 10"
  by (simp_all add: ended_def trials_done_def run_optimization_def EARLY_STOP_PATIENCE_def
      env_scored_def run_simps scored_eval)

theorem skipped_checkpoint_counterexample:
  "ended (run_optimization env_fifth 150 25) = Inr STOPPED_EARLY
   \<and> trials_done (run_optimization env_fifth 150 25) = Inr 30
   \<and> (30::nat) mod 10 = 0
   \<and> documents (run_optimization env_fifth 150 25) = Inr [10, 20]"
  by (simp add: ended_def trials_done_def documents_def run_optimization_def
      EARLY_STOP_PATIENCE_def env_fifth_def run_simps scored_eval ewo_infeasible
      infeasible_candidate_invalid)


lemma run_documents:
  assumes "run_optimization E n n_initial = Inr (how, r)"
  shows "results_dir r =
          map (\<lambda>k. snapshot_after (take k (all_results r)))
            [k \<leftarrow> [Suc 0 ..< Suc (length (all_results r))].
               k mod 10 = 0 \<and> (k < length (all_results r) \<or> how = STOPPED_BUDGET)]"
    and "in_memory r = tracked (all_results r)"
  using optimization_history [of E EARLY_STOP_PATIENCE n n_initial how r] assms
  by (simp_all add: run_optimization_def EARLY_STOP_PATIENCE_def)

text \<open>
  C6, as the code has it. A checkpoint at a multiple of 10 writes the best
  candidate, the best objective and the trials that the loop holds in memory at
  that iteration. In a run of \<^verbatim>\<open>run_optimization\<close> that returns, the documents
  written are, in order, those of the multiples of 10 up to the last trial,
  except that of the last trial itself when the loop stopped early there: the
  \<^verbatim>\<open>break\<close> comes before the checkpoint, so that no document of an early-stopped
  run holds its last trial. \<^verbatim>\<open>main\<close> then writes the final state in every case.
\<close>

theorem checkpoints_every_ten:
  "(\<forall>s'. (i + 1) mod 10 = 0 \<and> checkpoint E i s = Inr s' \<longrightarrow>
       results_dir s' = results_dir s @
         [\<lparr>json_best_config = best_config s,
           json_best_objective = map_option objective (best_metrics s),
           json_all_results = all_results s\<rparr>])
   \<and> (\<forall>how r. run_optimization E n n_initial = Inr (how, r) \<longrightarrow>
       results_dir r =
          map (\<lambda>k. snapshot_after (take k (all_results r)))
            [k \<leftarrow> [Suc 0 ..< Suc (length (all_results r))].
               k mod 10 = 0 \<and> (k < length (all_results r) \<or> how = STOPPED_BUDGET)]
       \<and> (\<forall>k. 0 < k \<and> k \<le> length (all_results r) \<and> k mod 10 = 0
              \<and> (k < length (all_results r) \<or> how = STOPPED_BUDGET) \<longrightarrow>
              snapshot_after (take k (all_results r)) \<in> set (results_dir r))
       \<and> (how = STOPPED_EARLY \<longrightarrow>
             (\<forall>d\<in>set (results_dir r). length (json_all_results d) < length (all_results r))))
   \<and> (\<forall>r'. main E n n_initial = Inr r' \<longrightarrow>
       results_dir r' \<noteq> []
       \<and> last (results_dir r') =
           \<lparr>json_best_config = best_config r',
             json_best_objective = map_option objective (best_metrics r'),
             json_all_results = all_results r'\<rparr>
       \<and> last (results_dir r') = snapshot_after (all_results r'))"
proof -
  have p1: "\<forall>s'. (i + 1) mod 10 = 0 \<and> checkpoint E i s = Inr s' \<longrightarrow>
       results_dir s' = results_dir s @
         [\<lparr>json_best_config = best_config s,
           json_best_objective = map_option objective (best_metrics s),
           json_all_results = all_results s\<rparr>]"
  proof (intro allI impI)
    fix s' assume "(i + 1) mod 10 = 0 \<and> checkpoint E i s = Inr s'"
    then have a: "(i + 1) mod 10 = 0" "checkpoint E i s = Inr s'" by simp_all
    from checkpoint_step [OF a(2)] a(1)
    show "results_dir s' = results_dir s @
         [\<lparr>json_best_config = best_config s,
           json_best_objective = map_option objective (best_metrics s),
           json_all_results = all_results s\<rparr>]" by simp
  qed
  have p2: "\<forall>how r. run_optimization E n n_initial = Inr (how, r) \<longrightarrow>
       results_dir r =
          map (\<lambda>k. snapshot_after (take k (all_results r)))
            [k \<leftarrow> [Suc 0 ..< Suc (length (all_results r))].
               k mod 10 = 0 \<and> (k < length (all_results r) \<or> how = STOPPED_BUDGET)]
       \<and> (\<forall>k. 0 < k \<and> k \<le> length (all_results r) \<and> k mod 10 = 0
              \<and> (k < length (all_results r) \<or> how = STOPPED_BUDGET) \<longrightarrow>
              snapshot_after (take k (all_results r)) \<in> set (results_dir r))
       \<and> (how = STOPPED_EARLY \<longrightarrow>
             (\<forall>d\<in>set (results_dir r). length (json_all_results d) < length (all_results r)))"
  proof (intro allI impI)
    fix how r assume run: "run_optimization E n n_initial = Inr (how, r)"
    note d = run_documents(1) [OF run]
    let ?due = "[k \<leftarrow> [Suc 0 ..< Suc (length (all_results r))].
               k mod 10 = 0 \<and> (k < length (all_results r) \<or> how = STOPPED_BUDGET)]"
    have sd: "set (results_dir r) = (\<lambda>k. snapshot_after (take k (all_results r))) ` set ?due"
      by (subst d) (simp only: set_map)
    have m: "\<forall>k. 0 < k \<and> k \<le> length (all_results r) \<and> k mod 10 = 0
              \<and> (k < length (all_results r) \<or> how = STOPPED_BUDGET) \<longrightarrow>
              snapshot_after (take k (all_results r)) \<in> set (results_dir r)"
    proof (intro allI impI)
      fix k assume "0 < k \<and> k \<le> length (all_results r) \<and> k mod 10 = 0
              \<and> (k < length (all_results r) \<or> how = STOPPED_BUDGET)"
      then have "k \<in> set ?due" by (simp del: upt_Suc)
      then show "snapshot_after (take k (all_results r)) \<in> set (results_dir r)"
        unfolding sd by (rule imageI)
    qed
    have e: "how = STOPPED_EARLY \<longrightarrow>
             (\<forall>d\<in>set (results_dir r). length (json_all_results d) < length (all_results r))"
    proof (intro impI ballI)
      fix doc assume early: "how = STOPPED_EARLY" and "doc \<in> set (results_dir r)"
      then obtain k where k: "k \<in> set ?due" and doc: "doc = snapshot_after (take k (all_results r))"
        unfolding sd by blast
      from k early have "k < length (all_results r)" by (simp del: upt_Suc)
      with doc show "length (json_all_results doc) < length (all_results r)"
        by (simp add: snapshot_after_def)
    qed
    show "results_dir r =
          map (\<lambda>k. snapshot_after (take k (all_results r)))
            [k \<leftarrow> [Suc 0 ..< Suc (length (all_results r))].
               k mod 10 = 0 \<and> (k < length (all_results r) \<or> how = STOPPED_BUDGET)]
       \<and> (\<forall>k. 0 < k \<and> k \<le> length (all_results r) \<and> k mod 10 = 0
              \<and> (k < length (all_results r) \<or> how = STOPPED_BUDGET) \<longrightarrow>
              snapshot_after (take k (all_results r)) \<in> set (results_dir r))
       \<and> (how = STOPPED_EARLY \<longrightarrow>
             (\<forall>d\<in>set (results_dir r). length (json_all_results d) < length (all_results r)))"
      by (intro conjI d m e)
  qed
  have p3: "\<forall>r'. main E n n_initial = Inr r' \<longrightarrow>
       results_dir r' \<noteq> []
       \<and> last (results_dir r') =
           \<lparr>json_best_config = best_config r',
             json_best_objective = map_option objective (best_metrics r'),
             json_all_results = all_results r'\<rparr>
       \<and> last (results_dir r') = snapshot_after (all_results r')"
  proof (intro allI impI)
    fix r' assume "main E n n_initial = Inr r'"
    from main_Inr [OF this] obtain how r
      where run: "run_optimization E n n_initial = Inr (how, r)"
        and d: "results_dir r' = results_dir r @
                [\<lparr>json_best_config = best_config r,
                  json_best_objective = map_option objective (best_metrics r),
                  json_all_results = all_results r\<rparr>]"
        and same: "all_results r' = all_results r" "best_config r' = best_config r"
          "best_metrics r' = best_metrics r" by blast
    from snapshot_in_memory [OF run_documents(2) [OF run]] d same
    show "results_dir r' \<noteq> []
       \<and> last (results_dir r') =
           \<lparr>json_best_config = best_config r',
             json_best_objective = map_option objective (best_metrics r'),
             json_all_results = all_results r'\<rparr>
       \<and> last (results_dir r') = snapshot_after (all_results r')"
      by simp
  qed
  show ?thesis by (intro conjI p1 p2 p3)
qed

theorem checkpoints_every_ten_witness:
  "\<exists>r. run_optimization env_scored 10 25 = Inr (STOPPED_BUDGET, r)
        \<and> length (all_results r) = 10 \<and> (10::nat) mod 10 = 0
        \<and> snapshot_after (take 10 (all_results r)) \<in> set (results_dir r)"
proof -
  from ended_Inr [OF scored_run_10(1)] obtain r
    where run: "run_optimization env_scored 10 25 = Inr (STOPPED_BUDGET, r)" by blast
  note len = trials_done_Inr [OF scored_run_10(2) run]
  have "snapshot_after (take 10 (all_results r)) \<in> set (results_dir r)"
    using checkpoints_every_ten [of 9 env_scored "initial_state env_scored 25" 10 25,
        THEN conjunct2, THEN conjunct1, rule_format, of STOPPED_BUDGET r,
        THEN conjunct2, THEN conjunct1, rule_format, of 10] run len
    by simp
  with run len show ?thesis by simp
qed

section \<open>A write that fails\<close>

lemma save_results_raises: "json_write fs = Some e \<Longrightarrow> save_results fs ts bc bm = Inl e"
  by (simp add: save_results_def)

lemma checkpoint_raises:
  "(i + 1) mod 10 = 0 \<Longrightarrow> json_write (checkpoint_fs E i) = Some e \<Longrightarrow> checkpoint E i s = Inl e"
  by (simp add: checkpoint_def save_results_raises)

lemma checkpoint_plot_fails:
  assumes "(i + 1) mod 10 = 0" "json_write (checkpoint_fs E i) = None"
    "plot (checkpoint_fs E i) = Some e"
  shows "checkpoint E i s =
     Inr (s\<lparr>stdout := stdout s @ [ResultsSaved, PlotFailed e],
            results_dir := results_dir s @
              [\<lparr>json_best_config = best_config s,
                json_best_objective = map_option objective (best_metrics s),
                json_all_results = all_results s\<rparr>]\<rparr>)"
  using assms by (auto simp: checkpoint_def save_results_def split: option.splits)

text \<open>
  C7, as the code has it. An exception raised while the results file is created,
  opened or written is not caught: it leaves \<^verbatim>\<open>save_results\<close>, the checkpoint
  and the loop, and the final save of \<^verbatim>\<open>main\<close>. Only a failure of the convergence
  plot is caught: it is reported on standard output, the document is written, and
  the loop goes on with its trials, its best-so-far and its counter unchanged.
\<close>

theorem write_failure_propagates:
  "(json_write fs = Some e \<longrightarrow> save_results fs ts bc bm = Inl e)
   \<and> ((i + 1) mod 10 = 0 \<and> json_write (checkpoint_fs E i) = Some e \<longrightarrow>
        checkpoint E i s = Inl e
        \<and> (\<forall>s1. int i < n \<and> trial_body E n i s = Inr s1 \<and> no_improvement_count s1 < p \<longrightarrow>
              for_loop E p n i s = Inl e))
   \<and> ((i + 1) mod 10 = 0 \<and> json_write (checkpoint_fs E i) = None
        \<and> plot (checkpoint_fs E i) = Some e \<longrightarrow>
        checkpoint E i s =
          Inr (s\<lparr>stdout := stdout s @ [ResultsSaved, PlotFailed e],
                 results_dir := results_dir s @
                   [\<lparr>json_best_config = best_config s,
                     json_best_objective = map_option objective (best_metrics s),
                     json_all_results = all_results s\<rparr>]\<rparr>))
   \<and> (\<forall>how r. json_write (final_fs E) = Some e \<and> run_optimization E n n_initial = Inr (how, r) \<longrightarrow>
        main E n n_initial = Inl e)"
proof -
  have p1: "json_write fs = Some e \<longrightarrow> save_results fs ts bc bm = Inl e"
    by (simp add: save_results_raises)
  have p2: "(i + 1) mod 10 = 0 \<and> json_write (checkpoint_fs E i) = Some e \<longrightarrow>
        checkpoint E i s = Inl e
        \<and> (\<forall>s1. int i < n \<and> trial_body E n i s = Inr s1 \<and> no_improvement_count s1 < p \<longrightarrow>
              for_loop E p n i s = Inl e)"
  proof (intro impI conjI allI)
    assume a: "(i + 1) mod 10 = 0 \<and> json_write (checkpoint_fs E i) = Some e"
    then show "checkpoint E i s = Inl e" by (simp add: checkpoint_raises)
    fix s1 assume b: "int i < n \<and> trial_body E n i s = Inr s1 \<and> no_improvement_count s1 < p"
    from a have "checkpoint E i s1 = Inl e" by (simp add: checkpoint_raises)
    with b show "for_loop E p n i s = Inl e" by (simp add: for_loop.simps [of E p n i s])
  qed
  have p3: "(i + 1) mod 10 = 0 \<and> json_write (checkpoint_fs E i) = None
        \<and> plot (checkpoint_fs E i) = Some e \<longrightarrow>
        checkpoint E i s =
          Inr (s\<lparr>stdout := stdout s @ [ResultsSaved, PlotFailed e],
                 results_dir := results_dir s @
                   [\<lparr>json_best_config = best_config s,
                     json_best_objective = map_option objective (best_metrics s),
                     json_all_results = all_results s\<rparr>]\<rparr>)"
    by (intro impI, elim conjE, rule checkpoint_plot_fails)
  have p4: "\<forall>how r. json_write (final_fs E) = Some e \<and> run_optimization E n n_initial = Inr (how, r) \<longrightarrow>
        main E n n_initial = Inl e"
    by (simp add: main_def save_results_raises)
  show ?thesis by (intro conjI p1 p2 p3 p4)
qed

theorem write_failure_propagates_witness:
  "json_write fs_full = Some (Raised ''No space left on device'')
   \<and> (9 + 1) mod 10 = (0::nat)
   \<and> json_write (checkpoint_fs env_disk_full 9) = Some (Raised ''No space left on device'')
   \<and> checkpoint env_disk_full 9 (initial_state env_disk_full 25)
        = Inl (Raised ''No space left on device'')
   \<and> for_loop env_disk_full 25 150 9 (initial_state env_disk_full 25)
        = Inl (Raised ''No space left on device'')
   \<and> json_write (checkpoint_fs env_no_plot 9) = None
   \<and> plot (checkpoint_fs env_no_plot 9) = Some (Raised ''no display'')
   \<and> map_sum id all_results (checkpoint env_no_plot 9 (initial_state env_no_plot 25)) = Inr []"
proof -
  have t: "\<exists>s1. trial_body env_disk_full 150 9 (initial_state env_disk_full 25) = Inr s1
              \<and> no_improvement_count s1 < 25"
    by (simp add: env_disk_full_def recording_def initial_state_def trial_body_def scored_eval Let_def)
  have a: "(9 + 1) mod 10 = (0::nat)"
    "json_write (checkpoint_fs env_disk_full 9) = Some (Raised ''No space left on device'')"
    "json_write (checkpoint_fs env_no_plot 9) = None"
    "plot (checkpoint_fs env_no_plot 9) = Some (Raised ''no display'')"
    "json_write fs_full = Some (Raised ''No space left on device'')"
    by (simp_all add: env_disk_full_def env_no_plot_def recording_def fs_full_def fs_no_plot_def)
  note w = write_failure_propagates [of fs_full "Raised ''No space left on device''" "[]" None None
      9 env_disk_full "initial_state env_disk_full 25" 150 25 25]
  note v = write_failure_propagates [of fs_full "Raised ''no display''" "[]" None None
      9 env_no_plot "initial_state env_no_plot 25" 150 25 25]
  from w a t have "checkpoint env_disk_full 9 (initial_state env_disk_full 25)
        = Inl (Raised ''No space left on device'')"
    "for_loop env_disk_full 25 150 9 (initial_state env_disk_full 25)
        = Inl (Raised ''No space left on device'')"
    by auto
  moreover from v a have "map_sum id all_results (checkpoint env_no_plot 9 (initial_state env_no_plot 25)) = Inr []"
    by (simp add: initial_state_def)
  ultimately show ?thesis using a by simp
qed

theorem write_failure_counterexample:
  "json_write (checkpoint_fs env_disk_full 9) = Some (Raised ''No space left on device'')
   \<and> ended (run_optimization env_disk_full 150 25) = Inl (Raised ''No space left on device'')"
  by (simp add: ended_def run_optimization_def EARLY_STOP_PATIENCE_def
      env_disk_full_def run_simps scored_eval fs_full_def)

section \<open>Runs in which every trial is penalised\<close>

lemma penalised_trial:
  assumes "penalised E n_initial i" and "optimizer s = penalised_optimizer E n_initial i"
    and "best_objective s = - 999" and "best_config s = None"
  shows "\<exists>s1 t. trial_body E n i s = Inr s1
           \<and> optimizer s1 = penalised_optimizer E n_initial (Suc i)
           \<and> all_results s1 = all_results s @ [t] \<and> objective t = - 999
           \<and> best_objective s1 = - 999 \<and> best_config s1 = None
           \<and> best_metrics s1 = best_metrics s
           \<and> no_improvement_count s1 = no_improvement_count s + 1
           \<and> results_dir s1 = results_dir s"
proof -
  obtain c asked where a: "ask E (optimizer s) = (c, asked)" by (cases "ask E (optimizer s)")
  with assms(2) have c: "proposal E n_initial i = c" by (simp add: proposal_def)
  from assms(1) have "\<not> validate_config c \<or> evaluate_config (simulate E i) c ''error'' \<noteq> None"
    by (simp add: penalised_def c)
  from ewo_penalised [OF this] obtain out
    where e: "evaluate_with_objective (simulate E i) c = Inr (out, 999)" by blast
  have o: "penalised_optimizer E n_initial (Suc i) = tell E asked c 999"
    using a assms(2) by simp
  show ?thesis
    unfolding trial_body_result [OF a e] using assms(3,4) o by simp
qed


lemma checkpoint_succeeds:
  assumes "(i + 1) mod 10 = 0 \<longrightarrow> json_write (checkpoint_fs E i) = None"
  shows "\<exists>s2. checkpoint E i s = Inr s2 \<and> optimizer s2 = optimizer s
           \<and> all_results s2 = all_results s \<and> in_memory s2 = in_memory s"
proof (cases "(i + 1) mod 10 = 0")
  case False
  then show ?thesis by (simp add: checkpoint_def)
next
  case True
  with assms have "json_write (checkpoint_fs E i) = None" by simp
  with True show ?thesis by (simp add: checkpoint_def save_results_def in_memory_def)
qed

lemma penalised_loop:
  assumes "\<forall>k. int k < n \<and> k < p \<longrightarrow> penalised E n_initial k"
    and "\<forall>k. int k < n \<and> k < p \<longrightarrow> json_write (checkpoint_fs E k) = None"
    and "optimizer s = penalised_optimizer E n_initial i"
    and "in_memory s = \<lparr>run_objective = - 999, run_config = None, run_metrics = None, run_count = i\<rparr>"
    and "length (all_results s) = i" and "\<forall>t\<in>set (all_results s). objective t = - 999"
    and "i < p"
  shows "\<exists>r. for_loop E p n i s = Inr (if n < int p then STOPPED_BUDGET else STOPPED_EARLY, r)
           \<and> best_config r = None \<and> best_metrics r = None
           \<and> int (length (all_results r)) = (if n < int p then max n (int i) else int p)
           \<and> (\<forall>t\<in>set (all_results r). objective t = - 999)"
  using assms
proof (induction E p n i s rule: for_loop.induct)
  case (1 E p n i s)
  note mem = \<open>in_memory s = \<lparr>run_objective = - 999, run_config = None, run_metrics = None, run_count = i\<rparr>\<close>
  have f: "best_objective s = - 999" "best_config s = None" "best_metrics s = None"
    "no_improvement_count s = i"
    using arg_cong [OF mem, of run_objective] arg_cong [OF mem, of run_config]
      arg_cong [OF mem, of run_metrics] arg_cong [OF mem, of run_count]
    by (simp_all add: in_memory_def)
  show ?case
  proof (cases "int i < n")
    case False
    with "1.prems"(5,6,7) f show ?thesis
      by (simp add: for_loop.simps [of E p n i s] max_def)
  next
    case True
    with "1.prems"(1,7) have pen: "penalised E n_initial i" by simp
    from penalised_trial [OF pen "1.prems"(3) f(1,2), of n] obtain s1 t
      where s1: "trial_body E n i s = Inr s1"
        "optimizer s1 = penalised_optimizer E n_initial (Suc i)"
        "all_results s1 = all_results s @ [t]" "objective t = - 999"
        "best_objective s1 = - 999" "best_config s1 = None"
        "best_metrics s1 = best_metrics s"
        "no_improvement_count s1 = no_improvement_count s + 1" by blast
    show ?thesis
    proof (cases "p \<le> no_improvement_count s1")
      case stop: True
      with s1(8) f(4) "1.prems"(7) have "p = i + 1" by simp
      with True stop s1 f "1.prems"(5,6) show ?thesis
        by (simp add: for_loop.simps [of E p n i s])
    next
      case go: False
      with s1(8) f(4) have lt: "i + 1 < p" by simp
      from "1.prems"(2,7) True
      have "(i + 1) mod 10 = 0 \<longrightarrow> json_write (checkpoint_fs E i) = None" by simp
      from checkpoint_succeeds [OF this, of s1] obtain s2
        where s2: "checkpoint E i s1 = Inr s2" "optimizer s2 = optimizer s1"
          "all_results s2 = all_results s1" "in_memory s2 = in_memory s1" by blast
      have mem2: "in_memory s2 = \<lparr>run_objective = - 999, run_config = None, run_metrics = None,
          run_count = i + 1\<rparr>"
        using s2(4) s1 f by (simp add: in_memory_def)
      have o2: "optimizer s2 = penalised_optimizer E n_initial (i + 1)" using s2(2) s1(2) by simp
      have l2: "length (all_results s2) = i + 1" using s2(3) s1(3) "1.prems"(5) by simp
      have a2: "\<forall>t\<in>set (all_results s2). objective t = - 999"
        using s2(3) s1(3,4) "1.prems"(6) by simp
      from "1.IH" [OF True go "1.prems"(1,2) o2 mem2 l2 a2 lt] obtain r
        where r: "for_loop E p n (i + 1) s2 = Inr (if n < int p then STOPPED_BUDGET else STOPPED_EARLY, r)"
          "best_config r = None" "best_metrics r = None"
          "int (length (all_results r)) = (if n < int p then max n (int (i + 1)) else int p)"
          "\<forall>t\<in>set (all_results r). objective t = - 999" by blast
      have "for_loop E p n i s = for_loop E p n (i + 1) s2"
        using True s1(1) go s2(1) by (simp add: for_loop.simps [of E p n i s])
      with r True show ?thesis by (auto simp: max_def)
    qed
  qed
qed


lemma proposal_infeasible: "proposal env_infeasible n_initial k = infeasible_candidate"
  by (simp add: proposal_def env_infeasible_def recording_def)

text \<open>
  C1, as the code has it. If every candidate proposed in the run is infeasible or
  fails its evaluation, and no write raises, then \<^verbatim>\<open>run_optimization\<close> returns
  with no best candidate and every objective at -999.0. It ends with the budget
  when \<open>n_iter < 25\<close>, after \<open>n_iter\<close> trials; for every larger budget, the
  default 150 among them, it ends by early stopping after 25 trials, since a
  penalised trial never improves on the initial best. \<^verbatim>\<open>main\<close> then returns
  and its last line reports that no valid configuration was found.
\<close>

theorem all_penalised_run:
  assumes "\<forall>k. int k < n \<and> k < 25 \<longrightarrow> penalised E n_initial k"
    and "\<forall>k. int k < n \<and> k < 25 \<longrightarrow> json_write (checkpoint_fs E k) = None"
    and "json_write (final_fs E) = None"
  shows "\<exists>r r'. run_optimization E n n_initial
                  = Inr (if n < 25 then STOPPED_BUDGET else STOPPED_EARLY, r)
      \<and> best_config r = None
      \<and> int (length (all_results r)) = (if n < 25 then max n 0 else 25)
      \<and> (\<forall>t\<in>set (all_results r). objective t = - 999)
      \<and> main E n n_initial = Inr r' \<and> best_config r' = None
      \<and> last (stdout r') = NoValidConfiguration"
proof -
  let ?s = "initial_state E n_initial"
  have i: "optimizer ?s = penalised_optimizer E n_initial 0"
    "in_memory ?s = \<lparr>run_objective = - 999, run_config = None, run_metrics = None, run_count = 0\<rparr>"
    "length (all_results ?s) = 0" "\<forall>t\<in>set (all_results ?s). objective t = - 999"
    by (simp_all add: initial_state_def in_memory_def)
  from penalised_loop [of n 25 E n_initial ?s 0, OF _ _ i] assms(1,2) obtain r0
    where r0: "for_loop E 25 n 0 ?s = Inr (if n < 25 then STOPPED_BUDGET else STOPPED_EARLY, r0)"
      "best_config r0 = None" "best_metrics r0 = None"
      "int (length (all_results r0)) = (if n < 25 then max n 0 else 25)"
      "\<forall>t\<in>set (all_results r0). objective t = - 999" by auto
  let ?r = "r0\<lparr>stdout := stdout r0 @ [OptimizationComplete]\<rparr>"
  have run: "run_optimization E n n_initial
                  = Inr (if n < 25 then STOPPED_BUDGET else STOPPED_EARLY, ?r)"
    using r0(1) by (simp add: run_optimization_def optimization_def EARLY_STOP_PATIENCE_def)
  have "\<exists>r'. main E n n_initial = Inr r' \<and> best_config r' = None
      \<and> last (stdout r') = NoValidConfiguration"
    using run r0(2) assms(3) by (simp add: main_def save_results_def Let_def)
  with run r0 show ?thesis by auto
qed

theorem all_penalised_run_witness:
  "ended (run_optimization env_infeasible 150 25) = Inr STOPPED_EARLY
   \<and> final_best_config (run_optimization env_infeasible 150 25) = Inr None
   \<and> trials_done (run_optimization env_infeasible 150 25) = Inr 25
   \<and> map_sum id (last \<circ> stdout) (main env_infeasible 150 25) = Inr NoValidConfiguration"
proof -
  have a: "\<forall>k. int k < 150 \<and> k < 25 \<longrightarrow> penalised env_infeasible 25 k"
    by (simp add: penalised_def proposal_infeasible infeasible_candidate_invalid)
  have b: "\<forall>k. int k < 150 \<and> k < 25 \<longrightarrow> json_write (checkpoint_fs env_infeasible k) = None"
    "json_write (final_fs env_infeasible) = None"
    by (simp_all add: env_infeasible_def recording_def fs_ok_def)
  from all_penalised_run [OF a b] show ?thesis
    by (auto simp: ended_def final_best_config_def trials_done_def)
qed

theorem budget_outcome_counterexample:
  "\<not> validate_config infeasible_candidate
   \<and> ended (run_optimization env_infeasible 150 25) = Inr STOPPED_EARLY
   \<and> trials_done (run_optimization env_infeasible 150 25) = Inr 25
   \<and> STOPPED_EARLY \<noteq> STOPPED_BUDGET"
  by (simp add: ended_def trials_done_def run_optimization_def EARLY_STOP_PATIENCE_def
      env_infeasible_def run_simps ewo_infeasible infeasible_candidate_invalid)

end
